theory Spec2Isabelle
  imports Main "HOL-Library.Word"
begin

unbundle bit_operations_syntax

section \<open>Go values: byte slices, errors, panics\<close>

text \<open>
  A Go \<^verbatim>\<open>[]byte\<close> is a list of 8-bit words. A Go \<^verbatim>\<open>int\<close> that is a size in
  bytes is a natural number: every size of this library is a byte count.
\<close>

type_synonym bytes = "8 word list"

text \<open>
  The error values the sources return. \<^verbatim>\<open>ErrUninitialized\<close> is declared in package
  hybrid; \<^verbatim>\<open>ErrSeedSize\<close>, \<^verbatim>\<open>ErrTypeMismatch\<close>, \<^verbatim>\<open>ErrCiphertextSize\<close>, \<^verbatim>\<open>ErrPubKeySize\<close> and
  \<^verbatim>\<open>ErrPrivKeySize\<close> are the variables of package kem that hybrid names;
  \<^verbatim>\<open>ErrTypeAssertionFailed\<close> is \<^verbatim>\<open>errors.New("type assertion failed")\<close> of
  \<^verbatim>\<open>PublicKey.UnmarshalText\<close>; \<^verbatim>\<open>errInvalidKey\<close> is the error of package ed25519;
  \<^verbatim>\<open>OtherError\<close> is any other error, as a component scheme may return, by its message.
\<close>

datatype error =
    ErrUninitialized
  | ErrSeedSize
  | ErrTypeMismatch
  | ErrCiphertextSize
  | ErrPubKeySize
  | ErrPrivKeySize
  | ErrTypeAssertionFailed
  | errInvalidKey
  | OtherError string

text \<open>
  A panic is not a returned value. \<^verbatim>\<open>SeedSizeMustBe n\<close> is the panic of
  \<^verbatim>\<open>DeriveKeyPair\<close>, whose value is \<^verbatim>\<open>fmt.Sprintf("seed size must be %d", n)\<close>;
  \<^verbatim>\<open>NilDereference\<close> is the run-time panic of a method call on a nil interface or a
  field read through a nil pointer; \<^verbatim>\<open>InterfaceConversion\<close> is the run-time panic of a
  type assertion \<^verbatim>\<open>x.(T)\<close> written without the \<^verbatim>\<open>ok\<close> result, when the dynamic type
  of \<^verbatim>\<open>x\<close> is not \<^verbatim>\<open>T\<close>.
\<close>

datatype panic =
    SeedSizeMustBe nat
  | NilDereference
  | InterfaceConversion
  | OtherPanic string

text \<open>
  A call either returns or panics. A Go function with results \<^verbatim>\<open>(T, error)\<close> has the
  type \<open>(error + T) go\<close>: \<open>Returns (Inl err)\<close> is the return of a non-nil error,
  \<open>Returns (Inr v)\<close> the return of \<open>v\<close> with a nil error. A function with no error
  result, such as \<^verbatim>\<open>DeriveKeyPair\<close> or \<^verbatim>\<open>Equal\<close>, has the type \<open>T go\<close>.
\<close>

datatype 'a go = Returns 'a | Panics panic

section \<open>Package kem: the interfaces the hybrid is built on\<close>

text \<open>
  \<^verbatim>\<open>kem.Scheme\<close> is an interface; a value of it is the record of its methods. The key
  types \<open>'pk\<close> and \<open>'sk\<close> are the dynamic values a \<^verbatim>\<open>kem.PublicKey\<close> and a
  \<^verbatim>\<open>kem.PrivateKey\<close> can hold as a component sees them; an interface value is an
  option, \<open>None\<close> being the nil interface. \<^verbatim>\<open>GenerateKeyPair\<close> draws from a random
  source: \<open>'rnd\<close> is what it draws during one call.
\<close>

record ('pk, 'sk, 'rnd) kem_Scheme =
  Name :: string
  GenerateKeyPair :: "'rnd \<Rightarrow> (error + ('pk option \<times> 'sk option)) go"
  DeriveKeyPair :: "bytes \<Rightarrow> ('pk option \<times> 'sk option) go"
  EncapsulateDeterministically :: "'pk option \<Rightarrow> bytes \<Rightarrow> (error + (bytes \<times> bytes)) go"
  Decapsulate :: "'sk option \<Rightarrow> bytes \<Rightarrow> (error + bytes) go"
  UnmarshalBinaryPublicKey :: "bytes \<Rightarrow> (error + 'pk option) go"
  UnmarshalBinaryPrivateKey :: "bytes \<Rightarrow> (error + 'sk option) go"
  PublicKeySize :: nat
  PrivateKeySize :: nat
  SeedSize :: nat
  SharedKeySize :: nat
  CiphertextSize :: nat
  EncapsulationSeedSize :: nat

text \<open>
  The methods of the component keys (\<^verbatim>\<open>kem.PublicKey\<close> and \<^verbatim>\<open>kem.PrivateKey\<close>), which Go
  finds by the key's dynamic type. The argument of \<^verbatim>\<open>Equal\<close> is an interface value.
\<close>

record ('pk, 'sk) kem_Key =
  pub_MarshalBinary :: "'pk \<Rightarrow> (error + bytes) go"
  pub_Equal :: "'pk \<Rightarrow> 'pk option \<Rightarrow> bool go"
  priv_MarshalBinary :: "'sk \<Rightarrow> (error + bytes) go"
  priv_Equal :: "'sk \<Rightarrow> 'sk option \<Rightarrow> bool go"
  priv_Public :: "'sk \<Rightarrow> 'pk option go"

section \<open>Package hybrid\<close>

subsection \<open>The structs\<close>

text \<open>
  \<^verbatim>\<open>type Scheme struct { name string; first kem.Scheme; second kem.Scheme }\<close>, with both
  components non-nil, as \<^verbatim>\<open>New\<close> is called in the registry.
\<close>

record ('pk, 'sk, 'rnd) Scheme =
  name :: string
  first :: "('pk, 'sk, 'rnd) kem_Scheme"
  second :: "('pk, 'sk, 'rnd) kem_Scheme"

text \<open>
  The keys. The field \<^verbatim>\<open>scheme *Scheme\<close> points to a scheme that nothing mutates, so the
  pointer is the option of the scheme it points to (\<open>None\<close> is nil). The fields
  \<^verbatim>\<open>first\<close> and \<^verbatim>\<open>second\<close> are interface values of the component keys.
\<close>

record ('pk, 'sk, 'rnd) PublicKey =
  pk_scheme :: "('pk, 'sk, 'rnd) Scheme option"
  pk_first :: "'pk option"
  pk_second :: "'pk option"

record ('pk, 'sk, 'rnd) PrivateKey =
  sk_scheme :: "('pk, 'sk, 'rnd) Scheme option"
  sk_first :: "'sk option"
  sk_second :: "'sk option"

text \<open>
  What a \<^verbatim>\<open>kem.PublicKey\<close> or \<^verbatim>\<open>kem.PrivateKey\<close> handed to the hybrid scheme can hold: a
  pointer of the hybrid package's own key type (\<open>Hybrid\<close>; the pointer may be nil), or a
  value of any other dynamic type (\<open>Foreign\<close>). The interface value itself may be nil
  (\<open>None\<close>). A type assertion \<^verbatim>\<open>k.(*PublicKey)\<close> succeeds on \<open>Some (Hybrid p)\<close> only.
\<close>

datatype ('h, 'k) dyn = Hybrid "'h option" | Foreign 'k

type_synonym ('pk, 'sk, 'rnd) kem_PublicKey = "(('pk, 'sk, 'rnd) PublicKey, 'pk) dyn option"
type_synonym ('pk, 'sk, 'rnd) kem_PrivateKey = "(('pk, 'sk, 'rnd) PrivateKey, 'sk) dyn option"

subsection \<open>Construction and sizes\<close>

definition New ::
  "string \<Rightarrow> ('pk, 'sk, 'rnd) kem_Scheme \<Rightarrow> ('pk, 'sk, 'rnd) kem_Scheme \<Rightarrow> ('pk, 'sk, 'rnd) Scheme" where
  "New name' first' second' = \<lparr>name = name', first = first', second = second'\<rparr>"

definition hybrid_Name :: "('pk, 'sk, 'rnd) Scheme \<Rightarrow> string" where
  "hybrid_Name sch = name sch"

definition hybrid_PublicKeySize :: "('pk, 'sk, 'rnd) Scheme \<Rightarrow> nat" where
  "hybrid_PublicKeySize sch = PublicKeySize (first sch) + PublicKeySize (second sch)"

definition hybrid_PrivateKeySize :: "('pk, 'sk, 'rnd) Scheme \<Rightarrow> nat" where
  "hybrid_PrivateKeySize sch = PrivateKeySize (first sch) + PrivateKeySize (second sch)"

definition hybrid_SeedSize :: "('pk, 'sk, 'rnd) Scheme \<Rightarrow> nat" where
  "hybrid_SeedSize sch = SeedSize (first sch) + SeedSize (second sch)"

definition hybrid_SharedKeySize :: "('pk, 'sk, 'rnd) Scheme \<Rightarrow> nat" where
  "hybrid_SharedKeySize sch = SharedKeySize (first sch) + SharedKeySize (second sch)"

definition hybrid_CiphertextSize :: "('pk, 'sk, 'rnd) Scheme \<Rightarrow> nat" where
  "hybrid_CiphertextSize sch = CiphertextSize (first sch) + CiphertextSize (second sch)"

definition hybrid_EncapsulationSeedSize :: "('pk, 'sk, 'rnd) Scheme \<Rightarrow> nat" where
  "hybrid_EncapsulationSeedSize sch =
     EncapsulationSeedSize (first sch) + EncapsulationSeedSize (second sch)"

subsection \<open>Methods of the keys\<close>


definition PublicKey_MarshalBinary ::
  "('pk, 'sk) kem_Key \<Rightarrow> ('pk, 'sk, 'rnd) PublicKey \<Rightarrow> (error + bytes) go" where
  "PublicKey_MarshalBinary K pk =
     (case (pk_first pk, pk_second pk) of
        (Some f, Some s) \<Rightarrow>
          (case pub_MarshalBinary K f of
             Panics p \<Rightarrow> Panics p
           | Returns (Inl err) \<Rightarrow> Returns (Inl err)
           | Returns (Inr first') \<Rightarrow>
               (case pub_MarshalBinary K s of
                  Panics p \<Rightarrow> Panics p
                | Returns (Inl err) \<Rightarrow> Returns (Inl err)
                | Returns (Inr second') \<Rightarrow> Returns (Inr (first' @ second'))))
      | _ \<Rightarrow> Returns (Inl ErrUninitialized))"

text \<open>
  \<^verbatim>\<open>Equal\<close>: false when the other key is not of the hybrid package's type; else the
  conjunction, left to right and short-circuit, of the components' \<^verbatim>\<open>Equal\<close>. The
  schemes of the two keys are not compared. Reading \<^verbatim>\<open>oth.first\<close> through a nil pointer
  and calling \<^verbatim>\<open>Equal\<close> on a nil component panic.
\<close>

definition PrivateKey_Equal ::
  "('pk, 'sk) kem_Key \<Rightarrow> ('pk, 'sk, 'rnd) PrivateKey \<Rightarrow> ('pk, 'sk, 'rnd) kem_PrivateKey \<Rightarrow> bool go" where
  "PrivateKey_Equal K sk other =
     (case other of
        Some (Hybrid None) \<Rightarrow> Panics NilDereference
      | Some (Hybrid (Some oth)) \<Rightarrow>
          (case sk_first sk of
             None \<Rightarrow> Panics NilDereference
           | Some f \<Rightarrow>
               (case priv_Equal K f (sk_first oth) of
                  Panics p \<Rightarrow> Panics p
                | Returns False \<Rightarrow> Returns False
                | Returns True \<Rightarrow>
                    (case sk_second sk of
                       None \<Rightarrow> Panics NilDereference
                     | Some s \<Rightarrow> priv_Equal K s (sk_second oth))))
      | _ \<Rightarrow> Returns False)"

definition PublicKey_Equal ::
  "('pk, 'sk) kem_Key \<Rightarrow> ('pk, 'sk, 'rnd) PublicKey \<Rightarrow> ('pk, 'sk, 'rnd) kem_PublicKey \<Rightarrow> bool go" where
  "PublicKey_Equal K pk other =
     (case other of
        Some (Hybrid None) \<Rightarrow> Panics NilDereference
      | Some (Hybrid (Some oth)) \<Rightarrow>
          (case pk_first pk of
             None \<Rightarrow> Panics NilDereference
           | Some f \<Rightarrow>
               (case pub_Equal K f (pk_first oth) of
                  Panics p \<Rightarrow> Panics p
                | Returns False \<Rightarrow> Returns False
                | Returns True \<Rightarrow>
                    (case pk_second pk of
                       None \<Rightarrow> Panics NilDereference
                     | Some s \<Rightarrow> pub_Equal K s (pk_second oth))))
      | _ \<Rightarrow> Returns False)"

text \<open>
  \<^verbatim>\<open>Public\<close>: a new public key of the same scheme, of the public keys of the two
  components.
\<close>

definition PrivateKey_Public ::
  "('pk, 'sk) kem_Key \<Rightarrow> ('pk, 'sk, 'rnd) PrivateKey \<Rightarrow> ('pk, 'sk, 'rnd) kem_PublicKey go" where
  "PrivateKey_Public K sk =
     (case sk_first sk of
        None \<Rightarrow> Panics NilDereference
      | Some f \<Rightarrow>
          (case priv_Public K f of
             Panics p \<Rightarrow> Panics p
           | Returns pk1 \<Rightarrow>
               (case sk_second sk of
                  None \<Rightarrow> Panics NilDereference
                | Some s \<Rightarrow>
                    (case priv_Public K s of
                       Panics p \<Rightarrow> Panics p
                     | Returns pk2 \<Rightarrow>
                         Returns (Some (Hybrid (Some
                           \<lparr>pk_scheme = sk_scheme sk, pk_first = pk1, pk_second = pk2\<rparr>)))))))"

subsection \<open>Key generation\<close>

text \<open>
  \<^verbatim>\<open>GenerateKeyPair\<close>: the two components generate in turn, each from its own draw of
  the random source; the first error is returned.
\<close>

definition hybrid_GenerateKeyPair ::
  "('pk, 'sk, 'rnd) Scheme \<Rightarrow> 'rnd \<times> 'rnd \<Rightarrow>
     (error + (('pk, 'sk, 'rnd) kem_PublicKey \<times> ('pk, 'sk, 'rnd) kem_PrivateKey)) go" where
  "hybrid_GenerateKeyPair sch rnd =
     (case GenerateKeyPair (first sch) (fst rnd) of
        Panics p \<Rightarrow> Panics p
      | Returns (Inl err) \<Rightarrow> Returns (Inl err)
      | Returns (Inr (pk1, sk1)) \<Rightarrow>
          (case GenerateKeyPair (second sch) (snd rnd) of
             Panics p \<Rightarrow> Panics p
           | Returns (Inl err) \<Rightarrow> Returns (Inl err)
           | Returns (Inr (pk2, sk2)) \<Rightarrow>
               Returns (Inr
                 (Some (Hybrid (Some \<lparr>pk_scheme = Some sch, pk_first = pk1, pk_second = pk2\<rparr>)),
                  Some (Hybrid (Some \<lparr>sk_scheme = Some sch, sk_first = sk1, sk_second = sk2\<rparr>))))))"

text \<open>
  \<^verbatim>\<open>DeriveKeyPair\<close> has no error result: a seed of the wrong length panics. After the
  check, \<^verbatim>\<open>seed[:n]\<close> and \<^verbatim>\<open>seed[n:]\<close> with \<open>n\<close> the first component's seed size are in
  range.
\<close>

definition hybrid_DeriveKeyPair ::
  "('pk, 'sk, 'rnd) Scheme \<Rightarrow> bytes \<Rightarrow>
     (('pk, 'sk, 'rnd) kem_PublicKey \<times> ('pk, 'sk, 'rnd) kem_PrivateKey) go" where
  "hybrid_DeriveKeyPair sch seed =
     (if length seed \<noteq> SeedSize (first sch) + SeedSize (second sch)
      then Panics (SeedSizeMustBe (SeedSize (first sch) + SeedSize (second sch)))
      else
        (case DeriveKeyPair (first sch) (take (SeedSize (first sch)) seed) of
           Panics p \<Rightarrow> Panics p
         | Returns (pk1, sk1) \<Rightarrow>
             (case DeriveKeyPair (second sch) (drop (SeedSize (first sch)) seed) of
                Panics p \<Rightarrow> Panics p
              | Returns (pk2, sk2) \<Rightarrow>
                  Returns
                    (Some (Hybrid (Some \<lparr>pk_scheme = Some sch, pk_first = pk1, pk_second = pk2\<rparr>)),
                     Some (Hybrid (Some \<lparr>sk_scheme = Some sch, sk_first = sk1, sk_second = sk2\<rparr>))))))"

subsection \<open>Encapsulation and decapsulation\<close>

text \<open>
  \<^verbatim>\<open>util.PairSplitPRF\<close> is called with \<^verbatim>\<open>(ss1, ss2, ct1, ct2)\<close>; the functions below take
  it as their first argument, so that what they do is stated for whatever it computes.
  The order of the checks is the source's: the length of the seed (of the ciphertext)
  first, the type of the key second, the components third.
\<close>

type_synonym split_prf = "bytes \<Rightarrow> bytes \<Rightarrow> bytes \<Rightarrow> bytes \<Rightarrow> bytes"

definition hybrid_EncapsulateDeterministically ::
  "split_prf \<Rightarrow> ('pk, 'sk, 'rnd) Scheme \<Rightarrow> ('pk, 'sk, 'rnd) kem_PublicKey \<Rightarrow> bytes \<Rightarrow>
     (error + (bytes \<times> bytes)) go" where
  "hybrid_EncapsulateDeterministically PairSplitPRF' sch publicKey seed =
     (if length seed \<noteq> hybrid_EncapsulationSeedSize sch then Returns (Inl ErrSeedSize)
      else
        let first' = take (EncapsulationSeedSize (first sch)) seed;
            second' = drop (EncapsulationSeedSize (first sch)) seed
        in
          (case publicKey of
             Some (Hybrid None) \<Rightarrow> Panics NilDereference
           | Some (Hybrid (Some pub)) \<Rightarrow>
               (case EncapsulateDeterministically (first sch) (pk_first pub) first' of
                  Panics p \<Rightarrow> Panics p
                | Returns (Inl err) \<Rightarrow> Returns (Inl err)
                | Returns (Inr (ct1, ss1)) \<Rightarrow>
                    (case EncapsulateDeterministically (second sch) (pk_second pub) second' of
                       Panics p \<Rightarrow> Panics p
                     | Returns (Inl err) \<Rightarrow> Returns (Inl err)
                     | Returns (Inr (ct2, ss2)) \<Rightarrow>
                         Returns (Inr (ct1 @ ct2, PairSplitPRF' ss1 ss2 ct1 ct2))))
           | _ \<Rightarrow> Returns (Inl ErrTypeMismatch)))"

definition hybrid_Decapsulate ::
  "split_prf \<Rightarrow> ('pk, 'sk, 'rnd) Scheme \<Rightarrow> ('pk, 'sk, 'rnd) kem_PrivateKey \<Rightarrow> bytes \<Rightarrow>
     (error + bytes) go" where
  "hybrid_Decapsulate PairSplitPRF' sch sk ct =
     (if length ct \<noteq> hybrid_CiphertextSize sch then Returns (Inl ErrCiphertextSize)
      else
        (case sk of
           Some (Hybrid None) \<Rightarrow> Panics NilDereference
         | Some (Hybrid (Some priv)) \<Rightarrow>
             (let firstSize = CiphertextSize (first sch) in
                case Decapsulate (first sch) (sk_first priv) (take firstSize ct) of
                  Panics p \<Rightarrow> Panics p
                | Returns (Inl err) \<Rightarrow> Returns (Inl err)
                | Returns (Inr ss1) \<Rightarrow>
                    (case Decapsulate (second sch) (sk_second priv) (drop firstSize ct) of
                       Panics p \<Rightarrow> Panics p
                     | Returns (Inl err) \<Rightarrow> Returns (Inl err)
                     | Returns (Inr ss2) \<Rightarrow>
                         Returns (Inr (PairSplitPRF' ss1 ss2 (take firstSize ct) (drop firstSize ct)))))
         | _ \<Rightarrow> Returns (Inl ErrTypeMismatch)))"

subsection \<open>Unmarshalling\<close>

definition hybrid_UnmarshalBinaryPublicKey ::
  "('pk, 'sk, 'rnd) Scheme \<Rightarrow> bytes \<Rightarrow> (error + ('pk, 'sk, 'rnd) kem_PublicKey) go" where
  "hybrid_UnmarshalBinaryPublicKey sch buf =
     (if length buf \<noteq> hybrid_PublicKeySize sch then Returns (Inl ErrPubKeySize)
      else
        (let firstSize = PublicKeySize (first sch) in
           case UnmarshalBinaryPublicKey (first sch) (take firstSize buf) of
             Panics p \<Rightarrow> Panics p
           | Returns (Inl err) \<Rightarrow> Returns (Inl err)
           | Returns (Inr pk1) \<Rightarrow>
               (case UnmarshalBinaryPublicKey (second sch) (drop firstSize buf) of
                  Panics p \<Rightarrow> Panics p
                | Returns (Inl err) \<Rightarrow> Returns (Inl err)
                | Returns (Inr pk2) \<Rightarrow>
                    Returns (Inr (Some (Hybrid (Some
                      \<lparr>pk_scheme = Some sch, pk_first = pk1, pk_second = pk2\<rparr>)))))))"

definition hybrid_UnmarshalBinaryPrivateKey ::
  "('pk, 'sk, 'rnd) Scheme \<Rightarrow> bytes \<Rightarrow> (error + ('pk, 'sk, 'rnd) kem_PrivateKey) go" where
  "hybrid_UnmarshalBinaryPrivateKey sch buf =
     (if length buf \<noteq> hybrid_PrivateKeySize sch then Returns (Inl ErrPrivKeySize)
      else
        (let firstSize = PrivateKeySize (first sch) in
           case UnmarshalBinaryPrivateKey (first sch) (take firstSize buf) of
             Panics p \<Rightarrow> Panics p
           | Returns (Inl err) \<Rightarrow> Returns (Inl err)
           | Returns (Inr sk1) \<Rightarrow>
               (case UnmarshalBinaryPrivateKey (second sch) (drop firstSize buf) of
                  Panics p \<Rightarrow> Panics p
                | Returns (Inl err) \<Rightarrow> Returns (Inl err)
                | Returns (Inr sk2) \<Rightarrow>
                    Returns (Inr (Some (Hybrid (Some
                      \<lparr>sk_scheme = Some sch, sk_first = sk1, sk_second = sk2\<rparr>)))))))"

subsection \<open>Text unmarshalling of a public key\<close>

text \<open>
  \<^verbatim>\<open>UnmarshalText\<close> has a pointer receiver, and what it does to the receiver is the
  question, so here the keys live in a store: a list of structs, a pointer being the
  index of its struct (\<open>None\<close> is nil). A pointer the program holds is always below the
  length of the store. \<^verbatim>\<open>UnmarshalBinaryPublicKey\<close> allocates the key it returns: the
  store grows by that struct. The result is the error (\<open>None\<close> is nil), the store, and
  the value of the local variable \<^verbatim>\<open>sk\<close> when the method returns.
  \<^verbatim>\<open>pem.FromPublicPEMToBytes\<close> is not among the sources and is the first argument.
\<close>

definition PublicKey_UnmarshalText ::
  "(bytes \<Rightarrow> ('pk, 'sk, 'rnd) Scheme option \<Rightarrow> (error + bytes) go) \<Rightarrow>
   ('pk, 'sk, 'rnd) PublicKey list \<Rightarrow> nat option \<Rightarrow> bytes \<Rightarrow>
     (error option \<times> ('pk, 'sk, 'rnd) PublicKey list \<times> nat option) go" where
  "PublicKey_UnmarshalText FromPublicPEMToBytes store sk text' =
     (case sk of
        None \<Rightarrow> Panics NilDereference
      | Some a \<Rightarrow>
          (case FromPublicPEMToBytes text' (pk_scheme (store ! a)) of
             Panics p \<Rightarrow> Panics p
           | Returns (Inl err) \<Rightarrow> Returns (Some err, store, sk)
           | Returns (Inr blob) \<Rightarrow>
               (case pk_scheme (store ! a) of
                  None \<Rightarrow> Panics NilDereference
                | Some sch \<Rightarrow>
                    (case hybrid_UnmarshalBinaryPublicKey sch blob of
                       Panics p \<Rightarrow> Panics p
                     | Returns (Inl err) \<Rightarrow> Returns (Some err, store, sk)
                     | Returns (Inr pubkey) \<Rightarrow>
                         (case pubkey of
                            Some (Hybrid (Some new)) \<Rightarrow>
                              Returns (None, store @ [new], Some (length store))
                          | Some (Hybrid None) \<Rightarrow> Returns (None, store, None)
                          | _ \<Rightarrow> Returns (Some ErrTypeAssertionFailed, store, None))))))"

subsection \<open>The hybrid scheme as a \<^verbatim>\<open>kem.Scheme\<close>\<close>

text \<open>
  \<^verbatim>\<open>*Scheme\<close> implements \<^verbatim>\<open>kem.Scheme\<close>: the interface value of a hybrid scheme is the
  record of its methods. Its keys are the interface values above, and its key generation
  draws twice.
\<close>

definition kem_Scheme_of ::
  "split_prf \<Rightarrow> ('pk, 'sk, 'rnd) Scheme \<Rightarrow>
     ((('pk, 'sk, 'rnd) PublicKey, 'pk) dyn, (('pk, 'sk, 'rnd) PrivateKey, 'sk) dyn, 'rnd \<times> 'rnd) kem_Scheme" where
  "kem_Scheme_of PairSplitPRF' sch =
     \<lparr>Name = hybrid_Name sch,
      GenerateKeyPair = hybrid_GenerateKeyPair sch,
      DeriveKeyPair = hybrid_DeriveKeyPair sch,
      EncapsulateDeterministically = hybrid_EncapsulateDeterministically PairSplitPRF' sch,
      Decapsulate = hybrid_Decapsulate PairSplitPRF' sch,
      UnmarshalBinaryPublicKey = hybrid_UnmarshalBinaryPublicKey sch,
      UnmarshalBinaryPrivateKey = hybrid_UnmarshalBinaryPrivateKey sch,
      PublicKeySize = hybrid_PublicKeySize sch,
      PrivateKeySize = hybrid_PrivateKeySize sch,
      SeedSize = hybrid_SeedSize sch,
      SharedKeySize = hybrid_SharedKeySize sch,
      CiphertextSize = hybrid_CiphertextSize sch,
      EncapsulationSeedSize = hybrid_EncapsulationSeedSize sch\<rparr>"

subsection \<open>The split PRF\<close>

text \<open>
  Modelled from the spec: \<^verbatim>\<open>util.PairSplitPRF\<close> is called by package hybrid and is not
  among the sources. The spec gives the combiner's shared secret as the byte-wise XOR of
  \<open>PRF (ss\<^sub>i \<parallel> CT)\<close> over the components, \<open>CT\<close> being the concatenation of the
  component ciphertexts and PRF being Blake2b-256. The hash is a function of another
  library and is the first argument (\<^verbatim>\<open>blake2b.Sum256\<close>).
\<close>

definition PairSplitPRF :: "(bytes \<Rightarrow> bytes) \<Rightarrow> split_prf" where
  "PairSplitPRF Sum256 ss1 ss2 cct1 cct2 =
     (let cct = cct1 @ cct2
      in map2 (XOR) (Sum256 (ss1 @ cct)) (Sum256 (ss2 @ cct)))"

section \<open>What a KEM owes its callers\<close>

text \<open>
  A key pair of a scheme is what its \<^verbatim>\<open>DeriveKeyPair\<close> returns for some seed or its
  \<^verbatim>\<open>GenerateKeyPair\<close> returns, without error, for some draw.
\<close>

definition is_keypair :: "('pk, 'sk, 'rnd) kem_Scheme \<Rightarrow> 'pk option \<Rightarrow> 'sk option \<Rightarrow> bool" where
  "is_keypair S pk sk \<longleftrightarrow>
     (\<exists>seed. DeriveKeyPair S seed = Returns (pk, sk)) \<or>
     (\<exists>rnd. GenerateKeyPair S rnd = Returns (Inr (pk, sk)))"

text \<open>
  The round trip: what deterministic encapsulation to a key pair's public key returns as
  the shared secret, decapsulation with the private key returns for the ciphertext.
\<close>

definition kem_roundtrip :: "('pk, 'sk, 'rnd) kem_Scheme \<Rightarrow> bool" where
  "kem_roundtrip S \<longleftrightarrow>
     (\<forall>pk sk seed ct ss.
        is_keypair S pk sk \<longrightarrow>
        length seed = EncapsulationSeedSize S \<longrightarrow>
        EncapsulateDeterministically S pk seed = Returns (Inr (ct, ss)) \<longrightarrow>
        Decapsulate S sk ct = Returns (Inr ss))"

text \<open>The ciphertexts of a scheme have the size the scheme declares.\<close>

definition kem_ciphertext_sized :: "('pk, 'sk, 'rnd) kem_Scheme \<Rightarrow> bool" where
  "kem_ciphertext_sized S \<longleftrightarrow>
     (\<forall>pk sk seed ct ss.
        is_keypair S pk sk \<longrightarrow>
        length seed = EncapsulationSeedSize S \<longrightarrow>
        EncapsulateDeterministically S pk seed = Returns (Inr (ct, ss)) \<longrightarrow>
        length ct = CiphertextSize S)"

section \<open>Package ed25519\<close>

text \<open>
  The constants are those of \<^verbatim>\<open>crypto/ed25519\<close>, with the values the comments of the
  source give them.
\<close>

definition ed25519_PublicKeySize :: nat where
  "ed25519_PublicKeySize = 32"

definition ed25519_PrivateKeySize :: nat where
  "ed25519_PrivateKeySize = 64"

definition ed25519_SignatureSize :: nat where
  "ed25519_SignatureSize = 64"

record ed25519_PublicKey =
  pubKey :: bytes
  b64String :: string

record ed25519_PrivateKey =
  PrivateKey_pubKey :: ed25519_PublicKey
  privKey :: bytes

text \<open>
  What a \<^verbatim>\<open>sign.PublicKey\<close> can hold: a pointer of this package's key type (which may be
  nil) or a value of another dynamic type; \<open>None\<close> is the nil interface.
\<close>

datatype 'o sign_dyn = Ed25519 "ed25519_PublicKey option" | OtherSign 'o

type_synonym 'o sign_PublicKey = "'o sign_dyn option"

text \<open>\<^verbatim>\<open>new(PublicKey)\<close> and \<^verbatim>\<open>new(PrivateKey)\<close>: the zero values.\<close>

definition new_PublicKey :: ed25519_PublicKey where
  "new_PublicKey = \<lparr>pubKey = [], b64String = []\<rparr>"

definition new_PrivateKey :: ed25519_PrivateKey where
  "new_PrivateKey = \<lparr>PrivateKey_pubKey = new_PublicKey, privKey = []\<rparr>"

text \<open>\<^verbatim>\<open>hmac.Equal\<close> compares two byte slices in constant time: it is their equality.\<close>

definition hmac_Equal :: "bytes \<Rightarrow> bytes \<Rightarrow> bool" where
  "hmac_Equal a b \<longleftrightarrow> a = b"

definition ed25519_PublicKey_Bytes :: "ed25519_PublicKey \<Rightarrow> bytes" where
  "ed25519_PublicKey_Bytes p = pubKey p"

text \<open>
  \<^verbatim>\<open>rebuildB64String\<close>; \<^verbatim>\<open>base64.StdEncoding.EncodeToString\<close> is the argument
  \<open>EncodeToString\<close>.
\<close>

definition rebuildB64String :: "(bytes \<Rightarrow> string) \<Rightarrow> ed25519_PublicKey \<Rightarrow> ed25519_PublicKey" where
  "rebuildB64String EncodeToString p = p\<lparr>b64String := EncodeToString (ed25519_PublicKey_Bytes p)\<rparr>"

text \<open>
  \<^verbatim>\<open>Equal\<close> asserts the type of its argument without the \<^verbatim>\<open>ok\<close> result, then reads the
  key through the pointer.
\<close>

definition ed25519_PublicKey_Equal :: "ed25519_PublicKey \<Rightarrow> 'o sign_PublicKey \<Rightarrow> bool go" where
  "ed25519_PublicKey_Equal p pubKey' =
     (case pubKey' of
        Some (Ed25519 (Some q)) \<Rightarrow> Returns (hmac_Equal (pubKey p) (pubKey q))
      | Some (Ed25519 None) \<Rightarrow> Panics NilDereference
      | _ \<Rightarrow> Panics InterfaceConversion)"

text \<open>
  \<^verbatim>\<open>Verify\<close> hands the key, the message and the signature to \<^verbatim>\<open>ed25519.Verify\<close> of the
  standard library, the argument \<open>Verify'\<close>.
\<close>

definition ed25519_PublicKey_Verify ::
  "(bytes \<Rightarrow> bytes \<Rightarrow> bytes \<Rightarrow> bool go) \<Rightarrow> ed25519_PublicKey \<Rightarrow> bytes \<Rightarrow> bytes \<Rightarrow> bool go" where
  "ed25519_PublicKey_Verify Verify' p signature message = Verify' (pubKey p) message signature"

text \<open>
  \<^verbatim>\<open>FromBytes\<close> of both keys mutates the receiver: the result is the error (\<open>None\<close> is
  nil) and the receiver afterwards. The public key of a private key is its last 32
  bytes (\<^verbatim>\<open>ed25519.PrivateKey.Public\<close>).
\<close>

definition ed25519_PublicKey_FromBytes ::
  "(bytes \<Rightarrow> string) \<Rightarrow> ed25519_PublicKey \<Rightarrow> bytes \<Rightarrow> error option \<times> ed25519_PublicKey" where
  "ed25519_PublicKey_FromBytes EncodeToString p data =
     (if length data \<noteq> ed25519_PublicKeySize then (Some errInvalidKey, p)
      else (None, rebuildB64String EncodeToString (p\<lparr>pubKey := data\<rparr>)))"

definition ed25519_PublicKey_UnmarshalBinary ::
  "(bytes \<Rightarrow> string) \<Rightarrow> ed25519_PublicKey \<Rightarrow> bytes \<Rightarrow> error option \<times> ed25519_PublicKey" where
  "ed25519_PublicKey_UnmarshalBinary EncodeToString p data = ed25519_PublicKey_FromBytes EncodeToString p data"

definition ed25519_PrivateKey_FromBytes ::
  "(bytes \<Rightarrow> string) \<Rightarrow> ed25519_PrivateKey \<Rightarrow> bytes \<Rightarrow> error option \<times> ed25519_PrivateKey" where
  "ed25519_PrivateKey_FromBytes EncodeToString p b =
     (if length b \<noteq> ed25519_PrivateKeySize then (Some errInvalidKey, p)
      else
        (None,
         p\<lparr>privKey := b,
           PrivateKey_pubKey :=
             rebuildB64String EncodeToString ((PrivateKey_pubKey p)\<lparr>pubKey := drop 32 b\<rparr>)\<rparr>))"

text \<open>The scheme's unmarshalling: a new key, filled from the bytes, or the error.\<close>

definition ed25519_UnmarshalBinaryPublicKey ::
  "(bytes \<Rightarrow> string) \<Rightarrow> bytes \<Rightarrow> error + ed25519_PublicKey" where
  "ed25519_UnmarshalBinaryPublicKey EncodeToString b =
     (case ed25519_PublicKey_UnmarshalBinary EncodeToString new_PublicKey b of
        (Some err, _) \<Rightarrow> Inl err
      | (None, pubKey') \<Rightarrow> Inr pubKey')"

definition ed25519_UnmarshalBinaryPrivateKey ::
  "(bytes \<Rightarrow> string) \<Rightarrow> bytes \<Rightarrow> error + ed25519_PrivateKey" where
  "ed25519_UnmarshalBinaryPrivateKey EncodeToString b =
     (case ed25519_PrivateKey_FromBytes EncodeToString new_PrivateKey b of
        (Some err, _) \<Rightarrow> Inl err
      | (None, privKey') \<Rightarrow> Inr privKey')"

definition ed25519_PublicKey_MarshalBinary :: "ed25519_PublicKey \<Rightarrow> error + bytes" where
  "ed25519_PublicKey_MarshalBinary p = Inr (ed25519_PublicKey_Bytes p)"

section \<open>Package schemes: the registry of KEMs\<close>

text \<open>
  \<^verbatim>\<open>strings.ToLower\<close> of the standard library: a string of ASCII bytes only has its
  letters \<^verbatim>\<open>A\<close> to \<^verbatim>\<open>Z\<close> moved to \<^verbatim>\<open>a\<close> to \<^verbatim>\<open>z\<close>; any other string is mapped rune by rune
  through \<^verbatim>\<open>unicode.ToLower\<close>, which is the argument \<open>mapToLower\<close>. A Go string is its
  bytes.
\<close>

definition isASCII :: "char \<Rightarrow> bool" where
  "isASCII c \<longleftrightarrow> (of_char c :: nat) < 128"

definition isUpperASCII :: "char \<Rightarrow> bool" where
  "isUpperASCII c \<longleftrightarrow> 65 \<le> (of_char c :: nat) \<and> (of_char c :: nat) \<le> 90"

definition toLowerASCII :: "char \<Rightarrow> char" where
  "toLowerASCII c = (if isUpperASCII c then char_of ((of_char c :: nat) + 32) else c)"

definition strings_ToLower :: "(string \<Rightarrow> string) \<Rightarrow> string \<Rightarrow> string" where
  "strings_ToLower mapToLower s =
     (if list_all isASCII s then map toLowerASCII s else mapToLower s)"

text \<open>
  \<^verbatim>\<open>strings.ToUpper\<close>, likewise: the all-upper casing of a name.
\<close>

definition isLowerASCII :: "char \<Rightarrow> bool" where
  "isLowerASCII c \<longleftrightarrow> 97 \<le> (of_char c :: nat) \<and> (of_char c :: nat) \<le> 122"

definition toUpperASCII :: "char \<Rightarrow> char" where
  "toUpperASCII c = (if isLowerASCII c then char_of ((of_char c :: nat) - 32) else c)"

definition strings_ToUpper :: "(string \<Rightarrow> string) \<Rightarrow> string \<Rightarrow> string" where
  "strings_ToUpper mapToUpper s =
     (if list_all isASCII s then map toUpperASCII s else mapToUpper s)"

text \<open>
  The package's variables: the slice \<^verbatim>\<open>allSchemes\<close> and the map \<^verbatim>\<open>allSchemeNames\<close>. A
  scheme is a \<^verbatim>\<open>kem.Scheme\<close>; an entry of \<^verbatim>\<open>potentialSchemes\<close> may be nil (\<open>None\<close>).
\<close>

record ('pk, 'sk, 'rnd) registry =
  allSchemes :: "('pk, 'sk, 'rnd) kem_Scheme list"
  allSchemeNames :: "string \<rightharpoonup> ('pk, 'sk, 'rnd) kem_Scheme"

text \<open>
  \<^verbatim>\<open>init\<close>: a fresh map; the potential schemes that are not nil are appended to
  \<^verbatim>\<open>allSchemes\<close>; then every scheme is stored under its lower-cased name, a later one
  replacing an earlier one of the same key.
\<close>

definition init ::
  "(string \<Rightarrow> string) \<Rightarrow> ('pk, 'sk, 'rnd) kem_Scheme option list \<Rightarrow>
     ('pk, 'sk, 'rnd) registry \<Rightarrow> ('pk, 'sk, 'rnd) registry" where
  "init mapToLower potentialSchemes reg =
     (let allSchemes' =
            fold (\<lambda>scheme acc. case scheme of None \<Rightarrow> acc | Some s \<Rightarrow> acc @ [s])
              potentialSchemes (allSchemes reg);
          allSchemeNames' =
            fold (\<lambda>scheme m. m(strings_ToLower mapToLower (Name scheme) \<mapsto> scheme))
              allSchemes' Map.empty
      in \<lparr>allSchemes = allSchemes', allSchemeNames = allSchemeNames'\<rparr>)"

text \<open>\<^verbatim>\<open>ByName\<close>: the map's entry for the lower-cased name; \<open>None\<close> is the nil scheme.\<close>

definition ByName ::
  "(string \<Rightarrow> string) \<Rightarrow> ('pk, 'sk, 'rnd) registry \<Rightarrow> string \<Rightarrow> ('pk, 'sk, 'rnd) kem_Scheme option" where
  "ByName mapToLower reg name' = allSchemeNames reg (strings_ToLower mapToLower name')"

definition All :: "('pk, 'sk, 'rnd) registry \<Rightarrow> ('pk, 'sk, 'rnd) kem_Scheme list" where
  "All reg = allSchemes reg"

section \<open>Predicates of the statements\<close>

text \<open>
  A key that the hybrid's type assertion rejects: the nil interface, or a value of
  another dynamic type.
\<close>

definition not_hybrid :: "('h, 'k) dyn option \<Rightarrow> bool" where
  "not_hybrid k \<longleftrightarrow> (case k of Some (Hybrid p) \<Rightarrow> False | _ \<Rightarrow> True)"



section \<open>A component for running the code\<close>

text \<open>
  A KEM small enough to run by hand, in the place of a component: every size is \<open>n\<close>
  bytes, a key pair is the seed twice, the ciphertext is the encapsulation seed and the
  shared secret is the key XOR the ciphertext. Its keys are byte strings; it takes a nil
  key for a key of the wrong type and has an error of its own for a key of the wrong
  length.
\<close>

definition xor_kem :: "string \<Rightarrow> nat \<Rightarrow> (bytes, bytes, bytes) kem_Scheme" where
  "xor_kem name' n =
     \<lparr>Name = name',
      GenerateKeyPair =
        (\<lambda>rnd. if length rnd \<noteq> n then Returns (Inl (OtherError ''short read''))
               else Returns (Inr (Some rnd, Some rnd))),
      DeriveKeyPair =
        (\<lambda>seed. if length seed \<noteq> n then Panics (SeedSizeMustBe n)
                else Returns (Some seed, Some seed)),
      EncapsulateDeterministically =
        (\<lambda>pk seed. case pk of
             None \<Rightarrow> Returns (Inl ErrTypeMismatch)
           | Some k \<Rightarrow>
               if length k \<noteq> n then Returns (Inl (OtherError ''xor: bad key''))
               else if length seed \<noteq> n then Returns (Inl ErrSeedSize)
               else Returns (Inr (seed, map2 (XOR) k seed))),
      Decapsulate =
        (\<lambda>sk ct. case sk of
             None \<Rightarrow> Returns (Inl ErrTypeMismatch)
           | Some k \<Rightarrow>
               if length k \<noteq> n then Returns (Inl (OtherError ''xor: bad key''))
               else if length ct \<noteq> n then Returns (Inl ErrCiphertextSize)
               else Returns (Inr (map2 (XOR) k ct))),
      UnmarshalBinaryPublicKey =
        (\<lambda>b. if length b \<noteq> n then Returns (Inl ErrPubKeySize) else Returns (Inr (Some b))),
      UnmarshalBinaryPrivateKey =
        (\<lambda>b. if length b \<noteq> n then Returns (Inl ErrPrivKeySize) else Returns (Inr (Some b))),
      PublicKeySize = n,
      PrivateKeySize = n,
      SeedSize = n,
      SharedKeySize = n,
      CiphertextSize = n,
      EncapsulationSeedSize = n\<rparr>"


text \<open>
  A stand-in for the hash, for running the split PRF: 32 bytes, each the sum of the
  input's bytes.
\<close>

definition sum_hash :: "bytes \<Rightarrow> bytes" where
  "sum_hash x = replicate 32 (sum_list x)"

text \<open>
  The hybrid of two such components of one byte each, a second hybrid scheme of the same
  components, and a key pair of the first.
\<close>

definition xor_hybrid :: "(bytes, bytes, bytes) Scheme" where
  "xor_hybrid = New ''xor-xor'' (xor_kem ''xor1'' 1) (xor_kem ''xor2'' 1)"

definition other_hybrid :: "(bytes, bytes, bytes) Scheme" where
  "other_hybrid = New ''other'' (xor_kem ''xor1'' 1) (xor_kem ''xor2'' 1)"

definition xor_pub :: "(bytes, bytes, bytes) PublicKey" where
  "xor_pub = \<lparr>pk_scheme = Some xor_hybrid, pk_first = Some [1], pk_second = Some [2]\<rparr>"

definition xor_priv :: "(bytes, bytes, bytes) PrivateKey" where
  "xor_priv = \<lparr>sk_scheme = Some xor_hybrid, sk_first = Some [1], sk_second = Some [2]\<rparr>"

text \<open>
  The same component declaring a ciphertext size of 0 while its ciphertexts have one
  byte, the hybrid of two of them, and a key pair of that hybrid.
\<close>

definition misdeclared_kem :: "string \<Rightarrow> (bytes, bytes, bytes) kem_Scheme" where
  "misdeclared_kem name' = (xor_kem name' 1)\<lparr>CiphertextSize := 0\<rparr>"

definition misdeclared_hybrid :: "(bytes, bytes, bytes) Scheme" where
  "misdeclared_hybrid = New ''misdeclared'' (misdeclared_kem ''m1'') (misdeclared_kem ''m2'')"

definition misdeclared_pub :: "(bytes, bytes, bytes) PublicKey" where
  "misdeclared_pub =
     \<lparr>pk_scheme = Some misdeclared_hybrid, pk_first = Some [1], pk_second = Some [2]\<rparr>"

definition misdeclared_priv :: "(bytes, bytes, bytes) PrivateKey" where
  "misdeclared_priv =
     \<lparr>sk_scheme = Some misdeclared_hybrid, sk_first = Some [1], sk_second = Some [2]\<rparr>"

text \<open>
  The registry's one scheme built by \<^verbatim>\<open>hybrid.New\<close>, with the component above in the
  place of the X25519 adapter and of Kyber768: both have shared keys of 32 bytes.
\<close>

definition kyber768_x25519 :: "(bytes, bytes, bytes) Scheme" where
  "kyber768_x25519 = New ''Kyber768-X25519'' (xor_kem ''X25519'' 32) (xor_kem ''Kyber768'' 32)"

definition kyber768_x25519_pub :: "(bytes, bytes, bytes) PublicKey" where
  "kyber768_x25519_pub =
     \<lparr>pk_scheme = Some kyber768_x25519,
      pk_first = Some (replicate 32 1), pk_second = Some (replicate 32 2)\<rparr>"

text \<open>
  A registry of three schemes by their names in the source, one of them from
  \<^verbatim>\<open>potentialSchemes\<close>, beside a nil entry.
\<close>

definition some_registry :: "(bytes, bytes, bytes) registry" where
  "some_registry =
     init id [None, Some (xor_kem ''ctidh512-X25519'' 1)]
       \<lparr>allSchemes = [xor_kem ''Kyber768-X25519'' 1, xor_kem ''MLKEM768-X25519'' 1],
        allSchemeNames = Map.empty\<rparr>"

text \<open>A stand-in for the PEM decoder: the text is the blob.\<close>

definition raw_pem :: "bytes \<Rightarrow> (bytes, bytes, bytes) Scheme option \<Rightarrow> (error + bytes) go" where
  "raw_pem text' sch = Returns (Inr text')"

section \<open>Theorems\<close>

subsection \<open>Running the component\<close>

lemma xor_kem_roundtrip: "kem_roundtrip (xor_kem nm n)"
  unfolding kem_roundtrip_def is_keypair_def xor_kem_def
  by (auto split: if_splits option.splits)

lemma xor_kem_ciphertext_sized: "kem_ciphertext_sized (xor_kem nm n)"
  unfolding kem_ciphertext_sized_def is_keypair_def xor_kem_def
  by (auto split: if_splits option.splits)

lemma xor_hybrid_fields:
  "first xor_hybrid = xor_kem ''xor1'' 1" "second xor_hybrid = xor_kem ''xor2'' 1"
  by (simp_all add: xor_hybrid_def New_def)

lemma xor_hybrid_derive:
  "hybrid_DeriveKeyPair xor_hybrid [1, 2] =
     Returns (Some (Hybrid (Some xor_pub)), Some (Hybrid (Some xor_priv)))"
  by (simp add: hybrid_DeriveKeyPair_def xor_hybrid_fields xor_kem_def xor_pub_def xor_priv_def)

lemma xor_hybrid_encaps:
  "hybrid_EncapsulateDeterministically (PairSplitPRF sum_hash) xor_hybrid
     (Some (Hybrid (Some xor_pub))) [3, 4] = Returns (Inr ([3, 4], replicate 32 4))"
  by (simp add: hybrid_EncapsulateDeterministically_def hybrid_EncapsulationSeedSize_def
      xor_hybrid_fields xor_kem_def xor_pub_def PairSplitPRF_def sum_hash_def)

lemma xor_hybrid_sizes:
  "hybrid_SeedSize xor_hybrid = 2" "hybrid_EncapsulationSeedSize xor_hybrid = 2"
  "hybrid_CiphertextSize xor_hybrid = 2" "hybrid_PublicKeySize xor_hybrid = 2"
  "hybrid_PrivateKeySize xor_hybrid = 2"
  by (simp_all add: hybrid_SeedSize_def hybrid_EncapsulationSeedSize_def
      hybrid_CiphertextSize_def hybrid_PublicKeySize_def hybrid_PrivateKeySize_def
      xor_hybrid_fields xor_kem_def)

lemma kyber768_x25519_fields:
  "first kyber768_x25519 = xor_kem ''X25519'' 32"
  "second kyber768_x25519 = xor_kem ''Kyber768'' 32"
  by (simp_all add: kyber768_x25519_def New_def)

lemma kyber768_x25519_encaps:
  "hybrid_EncapsulateDeterministically (PairSplitPRF sum_hash) kyber768_x25519
     (Some (Hybrid (Some kyber768_x25519_pub))) (replicate 64 3) =
   Returns (Inr (replicate 64 3, replicate 32 224))"
  by (simp add: hybrid_EncapsulateDeterministically_def hybrid_EncapsulationSeedSize_def
      kyber768_x25519_fields kyber768_x25519_pub_def xor_kem_def PairSplitPRF_def sum_hash_def
      sum_list_replicate replicate_add [symmetric])

lemma Name_xor_kem: "Name (xor_kem nm n) = nm"
  by (simp add: xor_kem_def)

subsection \<open>The round trip of the hybrid\<close>

lemma is_keypair_hybridE:
  assumes "is_keypair (kem_Scheme_of prf sch) pk sk"
  obtains pub priv where
    "pk = Some (Hybrid (Some pub))" "sk = Some (Hybrid (Some priv))"
    "is_keypair (first sch) (pk_first pub) (sk_first priv)"
    "is_keypair (second sch) (pk_second pub) (sk_second priv)"
  using assms
  unfolding is_keypair_def kem_Scheme_of_def hybrid_DeriveKeyPair_def hybrid_GenerateKeyPair_def
  by (fastforce split: if_splits go.splits sum.splits prod.splits)

lemma hybrid_encaps_OkE:
  assumes "hybrid_EncapsulateDeterministically prf sch (Some (Hybrid (Some pub))) seed =
             Returns (Inr (ct, ss))"
  obtains ct1 ss1 ct2 ss2 where
    "length seed = EncapsulationSeedSize (first sch) + EncapsulationSeedSize (second sch)"
    "EncapsulateDeterministically (first sch) (pk_first pub)
       (take (EncapsulationSeedSize (first sch)) seed) = Returns (Inr (ct1, ss1))"
    "EncapsulateDeterministically (second sch) (pk_second pub)
       (drop (EncapsulationSeedSize (first sch)) seed) = Returns (Inr (ct2, ss2))"
    "ct = ct1 @ ct2" "ss = prf ss1 ss2 ct1 ct2"
  using assms
  unfolding hybrid_EncapsulateDeterministically_def hybrid_EncapsulationSeedSize_def
  by (auto simp: Let_def split: if_splits go.splits sum.splits prod.splits)

lemma misdeclared_kem_roundtrip: "kem_roundtrip (misdeclared_kem nm)"
  unfolding kem_roundtrip_def is_keypair_def misdeclared_kem_def xor_kem_def
  by (auto split: if_splits option.splits)

lemma misdeclared_hybrid_fields:
  "first misdeclared_hybrid = misdeclared_kem ''m1''"
  "second misdeclared_hybrid = misdeclared_kem ''m2''"
  by (simp_all add: misdeclared_hybrid_def New_def)

text \<open>
  Claim C4 as stated, refuted: the round trip of the two components alone does not
  give the round trip of the hybrid. Each of the two components here has the round
  trip, while declaring a ciphertext size of 0 for ciphertexts of one byte. For the key
  pair that the hybrid derives from the seed \<open>(1, 2)\<close> and the encapsulation seed
  \<open>(3, 4)\<close>, of length \<^verbatim>\<open>EncapsulationSeedSize()\<close>, \<^verbatim>\<open>EncapsulateDeterministically\<close> returns
  a ciphertext of two bytes and a shared secret without error, and \<^verbatim>\<open>Decapsulate\<close> of
  that ciphertext with the private key returns \<^verbatim>\<open>ErrCiphertextSize\<close>: it compares the
  length of the ciphertext with the sum of the declared sizes.
\<close>

theorem hybrid_roundtrip_counterexample:
  "kem_roundtrip (first misdeclared_hybrid) \<and> kem_roundtrip (second misdeclared_hybrid) \<and>
   hybrid_DeriveKeyPair misdeclared_hybrid [1, 2] =
     Returns (Some (Hybrid (Some misdeclared_pub)), Some (Hybrid (Some misdeclared_priv))) \<and>
   length [3, 4 :: 8 word] = hybrid_EncapsulationSeedSize misdeclared_hybrid \<and>
   hybrid_EncapsulateDeterministically (PairSplitPRF sum_hash) misdeclared_hybrid
     (Some (Hybrid (Some misdeclared_pub))) [3, 4] = Returns (Inr ([3, 4], replicate 32 4)) \<and>
   hybrid_Decapsulate (PairSplitPRF sum_hash) misdeclared_hybrid
     (Some (Hybrid (Some misdeclared_priv))) [3, 4] = Returns (Inl ErrCiphertextSize)"
proof (intro conjI)
  show "kem_roundtrip (first misdeclared_hybrid)" "kem_roundtrip (second misdeclared_hybrid)"
    by (simp_all add: misdeclared_hybrid_fields misdeclared_kem_roundtrip)
  show "hybrid_DeriveKeyPair misdeclared_hybrid [1, 2] =
      Returns (Some (Hybrid (Some misdeclared_pub)), Some (Hybrid (Some misdeclared_priv)))"
    by (simp add: hybrid_DeriveKeyPair_def misdeclared_hybrid_fields misdeclared_kem_def
        xor_kem_def misdeclared_pub_def misdeclared_priv_def)
  show "length [3, 4 :: 8 word] = hybrid_EncapsulationSeedSize misdeclared_hybrid"
    by (simp add: hybrid_EncapsulationSeedSize_def misdeclared_hybrid_fields
        misdeclared_kem_def xor_kem_def)
  show "hybrid_EncapsulateDeterministically (PairSplitPRF sum_hash) misdeclared_hybrid
      (Some (Hybrid (Some misdeclared_pub))) [3, 4] = Returns (Inr ([3, 4], replicate 32 4))"
    by (simp add: hybrid_EncapsulateDeterministically_def hybrid_EncapsulationSeedSize_def
        misdeclared_hybrid_fields misdeclared_kem_def xor_kem_def misdeclared_pub_def
        PairSplitPRF_def sum_hash_def)
  show "hybrid_Decapsulate (PairSplitPRF sum_hash) misdeclared_hybrid
      (Some (Hybrid (Some misdeclared_priv))) [3, 4] = Returns (Inl ErrCiphertextSize)"
    by (simp add: hybrid_Decapsulate_def hybrid_CiphertextSize_def misdeclared_hybrid_fields
        misdeclared_kem_def xor_kem_def)
qed

text \<open>
  Claim C4, amended. Let both components of a hybrid scheme have the round trip, and
  let the ciphertexts they return for their key pairs be of the sizes they declare.
  Then for every key pair \<open>(pk, sk)\<close> of the hybrid scheme (derived from a seed or
  generated) and every encapsulation seed of length \<^verbatim>\<open>EncapsulationSeedSize()\<close>: if
  \<^verbatim>\<open>EncapsulateDeterministically(pk, seed)\<close> returns \<open>(ct, ss)\<close> without error, then
  \<^verbatim>\<open>Decapsulate(sk, ct)\<close> returns exactly \<open>ss\<close>, without error. This holds whatever
  \<^verbatim>\<open>util.PairSplitPRF\<close> computes.
\<close>

theorem hybrid_roundtrip:
  assumes r1: "kem_roundtrip (first sch)" and r2: "kem_roundtrip (second sch)"
    and c1: "kem_ciphertext_sized (first sch)" and c2: "kem_ciphertext_sized (second sch)"
    and kp: "is_keypair (kem_Scheme_of prf sch) pk sk"
    and len: "length seed = hybrid_EncapsulationSeedSize sch"
    and enc: "hybrid_EncapsulateDeterministically prf sch pk seed = Returns (Inr (ct, ss))"
  shows "hybrid_Decapsulate prf sch sk ct = Returns (Inr ss)"
proof -
  from kp obtain pub priv where
    pk: "pk = Some (Hybrid (Some pub))" and sk: "sk = Some (Hybrid (Some priv))"
    and kp1: "is_keypair (first sch) (pk_first pub) (sk_first priv)"
    and kp2: "is_keypair (second sch) (pk_second pub) (sk_second priv)"
    by (rule is_keypair_hybridE)
  from enc pk obtain ct1 ss1 ct2 ss2 where
    l: "length seed = EncapsulationSeedSize (first sch) + EncapsulationSeedSize (second sch)"
    and e1: "EncapsulateDeterministically (first sch) (pk_first pub)
               (take (EncapsulationSeedSize (first sch)) seed) = Returns (Inr (ct1, ss1))"
    and e2: "EncapsulateDeterministically (second sch) (pk_second pub)
               (drop (EncapsulationSeedSize (first sch)) seed) = Returns (Inr (ct2, ss2))"
    and ct: "ct = ct1 @ ct2" and ss: "ss = prf ss1 ss2 ct1 ct2"
    by (auto elim: hybrid_encaps_OkE)
  have l1: "length (take (EncapsulationSeedSize (first sch)) seed) =
              EncapsulationSeedSize (first sch)"
    using l by simp
  have l2: "length (drop (EncapsulationSeedSize (first sch)) seed) =
              EncapsulationSeedSize (second sch)"
    using l by simp
  have d1: "Decapsulate (first sch) (sk_first priv) ct1 = Returns (Inr ss1)"
    using r1 kp1 l1 e1 unfolding kem_roundtrip_def by blast
  have d2: "Decapsulate (second sch) (sk_second priv) ct2 = Returns (Inr ss2)"
    using r2 kp2 l2 e2 unfolding kem_roundtrip_def by blast
  have s1: "length ct1 = CiphertextSize (first sch)"
    using c1 kp1 l1 e1 unfolding kem_ciphertext_sized_def by blast
  have s2: "length ct2 = CiphertextSize (second sch)"
    using c2 kp2 l2 e2 unfolding kem_ciphertext_sized_def by blast
  have "hybrid_Decapsulate prf sch (Some (Hybrid (Some priv))) (ct1 @ ct2) = Returns (Inr ss)"
    unfolding hybrid_Decapsulate_def hybrid_CiphertextSize_def
    using s1 s2 d1 d2 ss by (simp add: Let_def)
  then show ?thesis
    by (simp add: sk ct)
qed

theorem hybrid_roundtrip_witness:
  "kem_roundtrip (first xor_hybrid) \<and> kem_roundtrip (second xor_hybrid) \<and>
   kem_ciphertext_sized (first xor_hybrid) \<and> kem_ciphertext_sized (second xor_hybrid) \<and>
   hybrid_DeriveKeyPair xor_hybrid [1, 2] =
     Returns (Some (Hybrid (Some xor_pub)), Some (Hybrid (Some xor_priv))) \<and>
   length [3, 4 :: 8 word] = hybrid_EncapsulationSeedSize xor_hybrid \<and>
   hybrid_EncapsulateDeterministically (PairSplitPRF sum_hash) xor_hybrid
     (Some (Hybrid (Some xor_pub))) [3, 4] = Returns (Inr ([3, 4], replicate 32 4)) \<and>
   hybrid_Decapsulate (PairSplitPRF sum_hash) xor_hybrid
     (Some (Hybrid (Some xor_priv))) [3, 4] = Returns (Inr (replicate 32 4))"
proof -
  have r1: "kem_roundtrip (first xor_hybrid)" and r2: "kem_roundtrip (second xor_hybrid)"
    by (simp_all add: xor_hybrid_fields xor_kem_roundtrip)
  have c1: "kem_ciphertext_sized (first xor_hybrid)"
    and c2: "kem_ciphertext_sized (second xor_hybrid)"
    by (simp_all add: xor_hybrid_fields xor_kem_ciphertext_sized)
  have kp: "is_keypair (kem_Scheme_of (PairSplitPRF sum_hash) xor_hybrid)
              (Some (Hybrid (Some xor_pub))) (Some (Hybrid (Some xor_priv)))"
    unfolding is_keypair_def
    by (rule disjI1, rule exI [of _ "[1, 2]"]) (simp add: kem_Scheme_of_def xor_hybrid_derive)
  have len: "length [3, 4 :: 8 word] = hybrid_EncapsulationSeedSize xor_hybrid"
    by (simp add: hybrid_EncapsulationSeedSize_def xor_hybrid_fields xor_kem_def)
  have "hybrid_Decapsulate (PairSplitPRF sum_hash) xor_hybrid
          (Some (Hybrid (Some xor_priv))) [3, 4] = Returns (Inr (replicate 32 4))"
    by (rule hybrid_roundtrip [OF r1 r2 c1 c2 kp len xor_hybrid_encaps])
  with r1 r2 c1 c2 len show ?thesis
    using xor_hybrid_derive xor_hybrid_encaps by simp
qed

subsection \<open>The size of the shared secret\<close>

lemma length_PairSplitPRF:
  "length (PairSplitPRF Sum256 ss1 ss2 cct1 cct2) =
     min (length (Sum256 (ss1 @ cct1 @ cct2))) (length (Sum256 (ss2 @ cct1 @ cct2)))"
  by (simp add: PairSplitPRF_def Let_def)

text \<open>
  Claim C1 says that the shared secret of a hybrid scheme has length
  \<^verbatim>\<open>SharedKeySize()\<close> and that this length is 32 bytes. The code has it otherwise:
  \<^verbatim>\<open>SharedKeySize()\<close> is the sum of the components' shared key sizes, so for two
  components with shared keys of 32 bytes it is 64; and the shared secret that a
  successful \<^verbatim>\<open>EncapsulateDeterministically\<close> returns is the split PRF's output, of 32
  bytes when the hash returns 32 bytes. The declared size is neither 32 nor the length
  of the secret.
\<close>

theorem hybrid_SharedKeySize_not_length:
  assumes h: "\<And>x. length (Sum256 x) = 32"
    and s1: "SharedKeySize (first sch) = 32" and s2: "SharedKeySize (second sch) = 32"
    and enc: "hybrid_EncapsulateDeterministically (PairSplitPRF Sum256) sch pk seed =
                Returns (Inr (ct, ss))"
  shows "hybrid_SharedKeySize sch = 64 \<and> length ss = 32"
proof
  show "hybrid_SharedKeySize sch = 64"
    using s1 s2 by (simp add: hybrid_SharedKeySize_def)
  from enc obtain ss1 ss2 ct1 ct2 where "ss = PairSplitPRF Sum256 ss1 ss2 ct1 ct2"
    unfolding hybrid_EncapsulateDeterministically_def
    by (auto simp: Let_def
        split: if_splits go.splits sum.splits prod.splits option.splits dyn.splits)
  then show "length ss = 32"
    by (simp add: length_PairSplitPRF h)
qed

theorem hybrid_SharedKeySize_not_length_witness:
  "SharedKeySize (first kyber768_x25519) = 32 \<and>
   SharedKeySize (second kyber768_x25519) = 32 \<and>
   hybrid_EncapsulateDeterministically (PairSplitPRF sum_hash) kyber768_x25519
     (Some (Hybrid (Some kyber768_x25519_pub))) (replicate 64 3) =
     Returns (Inr (replicate 64 3, replicate 32 224)) \<and>
   hybrid_SharedKeySize kyber768_x25519 = 64 \<and>
   length (replicate 32 (224 :: 8 word)) = 32"
proof -
  have h: "\<And>x. length (sum_hash x) = 32"
    by (simp add: sum_hash_def)
  have s1: "SharedKeySize (first kyber768_x25519) = 32"
    and s2: "SharedKeySize (second kyber768_x25519) = 32"
    by (simp_all add: kyber768_x25519_fields xor_kem_def)
  from hybrid_SharedKeySize_not_length [OF h s1 s2 kyber768_x25519_encaps] s1 s2
  show ?thesis
    using kyber768_x25519_encaps by simp
qed

subsection \<open>A seed of the wrong length in \<^verbatim>\<open>DeriveKeyPair\<close>\<close>

text \<open>
  Claim C2 as stated, refuted: \<^verbatim>\<open>DeriveKeyPair\<close> of the hybrid of two one-byte components
  with a seed of one byte, where the scheme's seed size is two, does not return an error
  to the caller: it panics.
\<close>

theorem hybrid_DeriveKeyPair_counterexample:
  "hybrid_DeriveKeyPair xor_hybrid [7] = Panics (SeedSizeMustBe 2)"
  by (simp add: hybrid_DeriveKeyPair_def xor_hybrid_fields xor_kem_def)

text \<open>
  Claim C2, amended. For every hybrid scheme, \<^verbatim>\<open>DeriveKeyPair\<close> with a seed whose length
  differs from the scheme's seed size does not return: it panics, the panic's value
  being the message \<^verbatim>\<open>seed size must be N\<close> with \<open>N\<close> the scheme's seed size.
\<close>

theorem hybrid_DeriveKeyPair_panics:
  assumes "length seed \<noteq> hybrid_SeedSize sch"
  shows "hybrid_DeriveKeyPair sch seed = Panics (SeedSizeMustBe (hybrid_SeedSize sch))"
  using assms by (simp add: hybrid_DeriveKeyPair_def hybrid_SeedSize_def)

theorem hybrid_DeriveKeyPair_panics_witness:
  "length [7, 8, 9 :: 8 word] \<noteq> hybrid_SeedSize xor_hybrid \<and>
   hybrid_DeriveKeyPair xor_hybrid [7, 8, 9] = Panics (SeedSizeMustBe 2)"
proof -
  have l: "length [7, 8, 9 :: 8 word] \<noteq> hybrid_SeedSize xor_hybrid"
    by (simp add: xor_hybrid_sizes)
  from hybrid_DeriveKeyPair_panics [OF l] l show ?thesis
    by (simp add: xor_hybrid_sizes)
qed

subsection \<open>Equality of keys\<close>

text \<open>
  Claim C3 says that \<^verbatim>\<open>Equal\<close> returns a boolean for every pair of keys, keys of
  different concrete types included, and never raises. The \<^verbatim>\<open>Equal\<close> of the ed25519
  public key does not: handed a key of another dynamic type, or the nil interface, it
  panics in its type assertion; handed a nil pointer of its own type it panics reading
  through it. The \<^verbatim>\<open>Equal\<close> of the hybrid keys checks the assertion and returns false
  for a key of another type or the nil interface; but on a hybrid key whose first
  component is nil, which \<^verbatim>\<open>MarshalBinary\<close> answers with \<^verbatim>\<open>ErrUninitialized\<close>, it panics
  too.
\<close>

theorem ed25519_Equal_panics:
  "ed25519_PublicKey_Equal p (Some (OtherSign k)) = Panics InterfaceConversion \<and>
   ed25519_PublicKey_Equal p None = Panics InterfaceConversion \<and>
   ed25519_PublicKey_Equal p (Some (Ed25519 None)) = Panics NilDereference \<and>
   PublicKey_Equal K pk (Some (Foreign f)) = Returns False \<and>
   PublicKey_Equal K pk None = Returns False \<and>
   PrivateKey_Equal K sk (Some (Foreign g)) = Returns False \<and>
   PrivateKey_Equal K sk None = Returns False \<and>
   PublicKey_Equal K \<lparr>pk_scheme = s, pk_first = None, pk_second = x\<rparr> (Some (Hybrid (Some oth))) =
     Panics NilDereference \<and>
   PublicKey_MarshalBinary K \<lparr>pk_scheme = s, pk_first = None, pk_second = x\<rparr> =
     Returns (Inl ErrUninitialized)"
  by (simp add: ed25519_PublicKey_Equal_def PublicKey_Equal_def PrivateKey_Equal_def
      PublicKey_MarshalBinary_def)

subsection \<open>What deterministic encapsulation computes\<close>

text \<open>
  Claim C5. For a hybrid scheme, a seed of length \<^verbatim>\<open>EncapsulationSeedSize()\<close> and a
  hybrid public key: the first component encapsulates to the key's first component with
  the first \<open>n\<close> bytes of the seed, \<open>n\<close> being the first component's encapsulation seed
  size, and the second component to the key's second component with the rest. When
  they return \<open>(ct\<^sub>1, ss\<^sub>1)\<close> and \<open>(ct\<^sub>2, ss\<^sub>2)\<close>, the hybrid returns the ciphertext
  \<open>ct\<^sub>1 \<parallel> ct\<^sub>2\<close>, with nothing between or around, and the shared secret
  \<open>PRF (ss\<^sub>1 \<parallel> ct\<^sub>1 \<parallel> ct\<^sub>2) XOR PRF (ss\<^sub>2 \<parallel> ct\<^sub>1 \<parallel> ct\<^sub>2)\<close>, byte by byte. The
  shared secret is that of the split PRF as the spec gives it.
\<close>

theorem hybrid_encapsulate_split_prf:
  assumes len: "length seed = hybrid_EncapsulationSeedSize sch"
    and e1: "EncapsulateDeterministically (first sch) (pk_first pub)
               (take (EncapsulationSeedSize (first sch)) seed) = Returns (Inr (ct1, ss1))"
    and e2: "EncapsulateDeterministically (second sch) (pk_second pub)
               (drop (EncapsulationSeedSize (first sch)) seed) = Returns (Inr (ct2, ss2))"
  shows "hybrid_EncapsulateDeterministically (PairSplitPRF Sum256) sch
           (Some (Hybrid (Some pub))) seed =
         Returns (Inr (ct1 @ ct2,
           map2 (XOR) (Sum256 (ss1 @ ct1 @ ct2)) (Sum256 (ss2 @ ct1 @ ct2))))"
  using len e1 e2
  by (simp add: hybrid_EncapsulateDeterministically_def PairSplitPRF_def Let_def)

theorem hybrid_encapsulate_split_prf_witness:
  "length [3, 4 :: 8 word] = hybrid_EncapsulationSeedSize xor_hybrid \<and>
   EncapsulateDeterministically (first xor_hybrid) (pk_first xor_pub)
     (take (EncapsulationSeedSize (first xor_hybrid)) [3, 4]) = Returns (Inr ([3], [2])) \<and>
   EncapsulateDeterministically (second xor_hybrid) (pk_second xor_pub)
     (drop (EncapsulationSeedSize (first xor_hybrid)) [3, 4]) = Returns (Inr ([4], [6])) \<and>
   hybrid_EncapsulateDeterministically (PairSplitPRF sum_hash) xor_hybrid
     (Some (Hybrid (Some xor_pub))) [3, 4] =
     Returns (Inr ([3, 4], map2 (XOR) (sum_hash [2, 3, 4]) (sum_hash [6, 3, 4])))"
proof -
  have len: "length [3, 4 :: 8 word] = hybrid_EncapsulationSeedSize xor_hybrid"
    by (simp add: xor_hybrid_sizes)
  have e1: "EncapsulateDeterministically (first xor_hybrid) (pk_first xor_pub)
              (take (EncapsulationSeedSize (first xor_hybrid)) [3, 4]) = Returns (Inr ([3], [2]))"
    by (simp add: xor_hybrid_fields xor_kem_def xor_pub_def)
  have e2: "EncapsulateDeterministically (second xor_hybrid) (pk_second xor_pub)
              (drop (EncapsulationSeedSize (first xor_hybrid)) [3, 4]) = Returns (Inr ([4], [6]))"
    by (simp add: xor_hybrid_fields xor_kem_def xor_pub_def)
  from hybrid_encapsulate_split_prf [OF len e1 e2, of sum_hash] len e1 e2
  show ?thesis by simp
qed

subsection \<open>The errors of encapsulation and decapsulation\<close>

text \<open>
  Claim C6 as stated, refuted: the length of the ciphertext (of the seed) is checked
  before the type of the key. With a key that is not a hybrid key and a ciphertext of
  one byte, where the scheme's ciphertexts have two, \<^verbatim>\<open>Decapsulate\<close> returns
  \<^verbatim>\<open>ErrCiphertextSize\<close> and not \<^verbatim>\<open>ErrTypeMismatch\<close>; with such a key and a seed of one
  byte, \<^verbatim>\<open>EncapsulateDeterministically\<close> returns \<^verbatim>\<open>ErrSeedSize\<close>.
\<close>

theorem hybrid_type_mismatch_counterexample:
  "hybrid_Decapsulate (PairSplitPRF sum_hash) xor_hybrid (Some (Foreign [1])) [3] =
     Returns (Inl ErrCiphertextSize) \<and>
   hybrid_Decapsulate (PairSplitPRF sum_hash) xor_hybrid (Some (Foreign [1])) [3] \<noteq>
     Returns (Inl ErrTypeMismatch) \<and>
   hybrid_EncapsulateDeterministically (PairSplitPRF sum_hash) xor_hybrid (Some (Foreign [1])) [3] =
     Returns (Inl ErrSeedSize) \<and>
   hybrid_EncapsulateDeterministically (PairSplitPRF sum_hash) xor_hybrid (Some (Foreign [1])) [3] \<noteq>
     Returns (Inl ErrTypeMismatch)"
  by (simp add: hybrid_Decapsulate_def hybrid_EncapsulateDeterministically_def xor_hybrid_sizes)

text \<open>
  Claim C6, amended. For every hybrid scheme, whatever \<^verbatim>\<open>util.PairSplitPRF\<close> computes:
  \<^verbatim>\<open>Decapsulate\<close> with a ciphertext whose length differs from \<^verbatim>\<open>CiphertextSize()\<close> returns
  \<^verbatim>\<open>ErrCiphertextSize\<close>, and \<^verbatim>\<open>EncapsulateDeterministically\<close> with a seed whose length
  differs from \<^verbatim>\<open>EncapsulationSeedSize()\<close> returns \<^verbatim>\<open>ErrSeedSize\<close>, whatever the key;
  when that length is right and the key is not of the hybrid package's key type (a
  key of another type, or nil), both return \<^verbatim>\<open>ErrTypeMismatch\<close>; when the length is
  right and the key is a hybrid key, the error of the first component is returned
  unchanged, and when the first component succeeds the error of the second is.
\<close>

theorem hybrid_error_conditions:
  "(length ct \<noteq> hybrid_CiphertextSize sch \<longrightarrow>
      hybrid_Decapsulate prf sch sk ct = Returns (Inl ErrCiphertextSize)) \<and>
   (length seed \<noteq> hybrid_EncapsulationSeedSize sch \<longrightarrow>
      hybrid_EncapsulateDeterministically prf sch pk seed = Returns (Inl ErrSeedSize)) \<and>
   (length ct = hybrid_CiphertextSize sch \<longrightarrow> not_hybrid sk \<longrightarrow>
      hybrid_Decapsulate prf sch sk ct = Returns (Inl ErrTypeMismatch)) \<and>
   (length seed = hybrid_EncapsulationSeedSize sch \<longrightarrow> not_hybrid pk \<longrightarrow>
      hybrid_EncapsulateDeterministically prf sch pk seed = Returns (Inl ErrTypeMismatch)) \<and>
   (length seed = hybrid_EncapsulationSeedSize sch \<longrightarrow>
    EncapsulateDeterministically (first sch) (pk_first pub)
      (take (EncapsulationSeedSize (first sch)) seed) = Returns (Inl err) \<longrightarrow>
      hybrid_EncapsulateDeterministically prf sch (Some (Hybrid (Some pub))) seed =
        Returns (Inl err)) \<and>
   (length seed = hybrid_EncapsulationSeedSize sch \<longrightarrow>
    EncapsulateDeterministically (first sch) (pk_first pub)
      (take (EncapsulationSeedSize (first sch)) seed) = Returns (Inr r1) \<longrightarrow>
    EncapsulateDeterministically (second sch) (pk_second pub)
      (drop (EncapsulationSeedSize (first sch)) seed) = Returns (Inl err) \<longrightarrow>
      hybrid_EncapsulateDeterministically prf sch (Some (Hybrid (Some pub))) seed =
        Returns (Inl err)) \<and>
   (length ct = hybrid_CiphertextSize sch \<longrightarrow>
    Decapsulate (first sch) (sk_first priv) (take (CiphertextSize (first sch)) ct) =
      Returns (Inl err) \<longrightarrow>
      hybrid_Decapsulate prf sch (Some (Hybrid (Some priv))) ct = Returns (Inl err)) \<and>
   (length ct = hybrid_CiphertextSize sch \<longrightarrow>
    Decapsulate (first sch) (sk_first priv) (take (CiphertextSize (first sch)) ct) =
      Returns (Inr ss1) \<longrightarrow>
    Decapsulate (second sch) (sk_second priv) (drop (CiphertextSize (first sch)) ct) =
      Returns (Inl err) \<longrightarrow>
      hybrid_Decapsulate prf sch (Some (Hybrid (Some priv))) ct = Returns (Inl err))"
proof (intro conjI impI)
  show "hybrid_Decapsulate prf sch sk ct = Returns (Inl ErrCiphertextSize)"
    if "length ct \<noteq> hybrid_CiphertextSize sch"
    using that by (simp add: hybrid_Decapsulate_def)
  show "hybrid_EncapsulateDeterministically prf sch pk seed = Returns (Inl ErrSeedSize)"
    if "length seed \<noteq> hybrid_EncapsulationSeedSize sch"
    using that by (simp add: hybrid_EncapsulateDeterministically_def)
  show "hybrid_Decapsulate prf sch sk ct = Returns (Inl ErrTypeMismatch)"
    if "length ct = hybrid_CiphertextSize sch" "not_hybrid sk"
    using that
    by (simp add: hybrid_Decapsulate_def not_hybrid_def split: option.splits dyn.splits)
  show "hybrid_EncapsulateDeterministically prf sch pk seed = Returns (Inl ErrTypeMismatch)"
    if "length seed = hybrid_EncapsulationSeedSize sch" "not_hybrid pk"
    using that
    by (simp add: hybrid_EncapsulateDeterministically_def not_hybrid_def Let_def
        split: option.splits dyn.splits)
  show "hybrid_EncapsulateDeterministically prf sch (Some (Hybrid (Some pub))) seed =
          Returns (Inl err)"
    if "length seed = hybrid_EncapsulationSeedSize sch"
      "EncapsulateDeterministically (first sch) (pk_first pub)
         (take (EncapsulationSeedSize (first sch)) seed) = Returns (Inl err)"
    using that by (simp add: hybrid_EncapsulateDeterministically_def Let_def)
  show "hybrid_EncapsulateDeterministically prf sch (Some (Hybrid (Some pub))) seed =
          Returns (Inl err)"
    if "length seed = hybrid_EncapsulationSeedSize sch"
      "EncapsulateDeterministically (first sch) (pk_first pub)
         (take (EncapsulationSeedSize (first sch)) seed) = Returns (Inr r1)"
      "EncapsulateDeterministically (second sch) (pk_second pub)
         (drop (EncapsulationSeedSize (first sch)) seed) = Returns (Inl err)"
    using that
    by (simp add: hybrid_EncapsulateDeterministically_def Let_def split: prod.splits)
  show "hybrid_Decapsulate prf sch (Some (Hybrid (Some priv))) ct = Returns (Inl err)"
    if "length ct = hybrid_CiphertextSize sch"
      "Decapsulate (first sch) (sk_first priv) (take (CiphertextSize (first sch)) ct) =
         Returns (Inl err)"
    using that by (simp add: hybrid_Decapsulate_def Let_def)
  show "hybrid_Decapsulate prf sch (Some (Hybrid (Some priv))) ct = Returns (Inl err)"
    if "length ct = hybrid_CiphertextSize sch"
      "Decapsulate (first sch) (sk_first priv) (take (CiphertextSize (first sch)) ct) =
         Returns (Inr ss1)"
      "Decapsulate (second sch) (sk_second priv) (drop (CiphertextSize (first sch)) ct) =
         Returns (Inl err)"
    using that by (simp add: hybrid_Decapsulate_def Let_def)
qed

text \<open>
  The amended claim at work on the hybrid of two one-byte components: a ciphertext of
  three bytes; a seed of one byte; keys that are not hybrid keys, with a ciphertext and
  a seed of two bytes; and hybrid keys whose first, or second, component is of the wrong
  length, which the component refuses with its own error.
\<close>

theorem hybrid_error_conditions_witness:
  "hybrid_Decapsulate (PairSplitPRF sum_hash) xor_hybrid (Some (Hybrid (Some xor_priv))) [3, 4, 5] =
     Returns (Inl ErrCiphertextSize) \<and>
   hybrid_EncapsulateDeterministically (PairSplitPRF sum_hash) xor_hybrid
     (Some (Hybrid (Some xor_pub))) [3] = Returns (Inl ErrSeedSize) \<and>
   hybrid_Decapsulate (PairSplitPRF sum_hash) xor_hybrid (Some (Foreign [1])) [3, 4] =
     Returns (Inl ErrTypeMismatch) \<and>
   hybrid_EncapsulateDeterministically (PairSplitPRF sum_hash) xor_hybrid None [3, 4] =
     Returns (Inl ErrTypeMismatch) \<and>
   hybrid_EncapsulateDeterministically (PairSplitPRF sum_hash) xor_hybrid
     (Some (Hybrid (Some (xor_pub\<lparr>pk_first := Some []\<rparr>)))) [3, 4] =
     Returns (Inl (OtherError ''xor: bad key'')) \<and>
   hybrid_EncapsulateDeterministically (PairSplitPRF sum_hash) xor_hybrid
     (Some (Hybrid (Some (xor_pub\<lparr>pk_second := Some []\<rparr>)))) [3, 4] =
     Returns (Inl (OtherError ''xor: bad key'')) \<and>
   hybrid_Decapsulate (PairSplitPRF sum_hash) xor_hybrid
     (Some (Hybrid (Some (xor_priv\<lparr>sk_first := None\<rparr>)))) [3, 4] =
     Returns (Inl ErrTypeMismatch) \<and>
   hybrid_Decapsulate (PairSplitPRF sum_hash) xor_hybrid
     (Some (Hybrid (Some (xor_priv\<lparr>sk_second := Some []\<rparr>)))) [3, 4] =
     Returns (Inl (OtherError ''xor: bad key''))"
proof -
  note sizes = xor_hybrid_sizes xor_hybrid_fields xor_kem_def xor_pub_def xor_priv_def
    not_hybrid_def
  have a: "hybrid_Decapsulate (PairSplitPRF sum_hash) xor_hybrid
             (Some (Hybrid (Some xor_priv))) [3, 4, 5] = Returns (Inl ErrCiphertextSize)"
    using hybrid_error_conditions
      [of "[3, 4, 5]" xor_hybrid "PairSplitPRF sum_hash" "Some (Hybrid (Some xor_priv))"]
    by (simp add: sizes)
  have b: "hybrid_EncapsulateDeterministically (PairSplitPRF sum_hash) xor_hybrid
             (Some (Hybrid (Some xor_pub))) [3] = Returns (Inl ErrSeedSize)"
    using hybrid_error_conditions
      [of _ xor_hybrid "PairSplitPRF sum_hash" _ "[3]" "Some (Hybrid (Some xor_pub))"]
    by (simp add: sizes)
  have c: "hybrid_Decapsulate (PairSplitPRF sum_hash) xor_hybrid (Some (Foreign [1])) [3, 4] =
             Returns (Inl ErrTypeMismatch)"
    using hybrid_error_conditions
      [of "[3, 4]" xor_hybrid "PairSplitPRF sum_hash" "Some (Foreign [1])"]
    by (simp add: sizes)
  have d: "hybrid_EncapsulateDeterministically (PairSplitPRF sum_hash) xor_hybrid None [3, 4] =
             Returns (Inl ErrTypeMismatch)"
    using hybrid_error_conditions
      [of _ xor_hybrid "PairSplitPRF sum_hash" _ "[3, 4]" None]
    by (simp add: sizes)
  have e: "hybrid_EncapsulateDeterministically (PairSplitPRF sum_hash) xor_hybrid
             (Some (Hybrid (Some (xor_pub\<lparr>pk_first := Some []\<rparr>)))) [3, 4] =
             Returns (Inl (OtherError ''xor: bad key''))"
    using hybrid_error_conditions
      [of _ xor_hybrid "PairSplitPRF sum_hash" _ "[3, 4]" _ "xor_pub\<lparr>pk_first := Some []\<rparr>"
        "OtherError ''xor: bad key''"]
    by (simp add: sizes)
  have f: "hybrid_EncapsulateDeterministically (PairSplitPRF sum_hash) xor_hybrid
             (Some (Hybrid (Some (xor_pub\<lparr>pk_second := Some []\<rparr>)))) [3, 4] =
             Returns (Inl (OtherError ''xor: bad key''))"
    using hybrid_error_conditions
      [of _ xor_hybrid "PairSplitPRF sum_hash" _ "[3, 4]" _ "xor_pub\<lparr>pk_second := Some []\<rparr>"
        "OtherError ''xor: bad key''" "([3], [2])"]
    by (simp add: sizes)
  have g: "hybrid_Decapsulate (PairSplitPRF sum_hash) xor_hybrid
             (Some (Hybrid (Some (xor_priv\<lparr>sk_first := None\<rparr>)))) [3, 4] =
             Returns (Inl ErrTypeMismatch)"
    using hybrid_error_conditions
      [of "[3, 4]" xor_hybrid "PairSplitPRF sum_hash" _ _ _ _ ErrTypeMismatch _
        "xor_priv\<lparr>sk_first := None\<rparr>"]
    by (simp add: sizes)
  have h: "hybrid_Decapsulate (PairSplitPRF sum_hash) xor_hybrid
             (Some (Hybrid (Some (xor_priv\<lparr>sk_second := Some []\<rparr>)))) [3, 4] =
             Returns (Inl (OtherError ''xor: bad key''))"
    using hybrid_error_conditions
      [of "[3, 4]" xor_hybrid "PairSplitPRF sum_hash" _ _ _ _ "OtherError ''xor: bad key''" _
        "xor_priv\<lparr>sk_second := Some []\<rparr>" "[2]"]
    by (simp add: sizes)
  from a b c d e f g h show ?thesis by simp
qed

text \<open>
  The scheme a hybrid key points to is not compared with the scheme invoked: a key of
  another hybrid scheme, of the same components, is encapsulated to.
\<close>

lemma hybrid_key_of_other_scheme:
  "hybrid_EncapsulateDeterministically (PairSplitPRF sum_hash) xor_hybrid
     (Some (Hybrid (Some (xor_pub\<lparr>pk_scheme := Some other_hybrid\<rparr>)))) [3, 4] =
   Returns (Inr ([3, 4], replicate 32 4))"
  by (simp add: hybrid_EncapsulateDeterministically_def hybrid_EncapsulationSeedSize_def
      xor_hybrid_fields xor_kem_def xor_pub_def PairSplitPRF_def sum_hash_def)

subsection \<open>Sizes are sums\<close>





subsection \<open>Buffers of the wrong length\<close>

text \<open>
  Claim C8. Unmarshalling a buffer whose length is not the declared size fails with
  the scheme's invalid-key error and yields no key: for the hybrid scheme
  \<^verbatim>\<open>ErrPubKeySize\<close> against \<^verbatim>\<open>PublicKeySize()\<close> and \<^verbatim>\<open>ErrPrivKeySize\<close> against
  \<^verbatim>\<open>PrivateKeySize()\<close>, before any component is asked; for ed25519 \<^verbatim>\<open>errInvalidKey\<close>
  against 32 bytes for a public key and 64 for a private key, from \<^verbatim>\<open>FromBytes\<close>, which
  leaves its receiver as it was, and from the scheme's unmarshal operations.
\<close>

theorem unmarshal_wrong_length:
  "(length buf \<noteq> hybrid_PublicKeySize sch \<longrightarrow>
      hybrid_UnmarshalBinaryPublicKey sch buf = Returns (Inl ErrPubKeySize)) \<and>
   (length buf \<noteq> hybrid_PrivateKeySize sch \<longrightarrow>
      hybrid_UnmarshalBinaryPrivateKey sch buf = Returns (Inl ErrPrivKeySize)) \<and>
   (length b \<noteq> ed25519_PublicKeySize \<longrightarrow>
      ed25519_PublicKey_FromBytes enc p b = (Some errInvalidKey, p) \<and>
      ed25519_UnmarshalBinaryPublicKey enc b = Inl errInvalidKey) \<and>
   (length b \<noteq> ed25519_PrivateKeySize \<longrightarrow>
      ed25519_PrivateKey_FromBytes enc q b = (Some errInvalidKey, q) \<and>
      ed25519_UnmarshalBinaryPrivateKey enc b = Inl errInvalidKey)"
  by (simp add: hybrid_UnmarshalBinaryPublicKey_def hybrid_UnmarshalBinaryPrivateKey_def
      ed25519_PublicKey_FromBytes_def ed25519_PrivateKey_FromBytes_def ed25519_PublicKey_UnmarshalBinary_def
      ed25519_UnmarshalBinaryPublicKey_def ed25519_UnmarshalBinaryPrivateKey_def)

text \<open>
  One byte short and one byte long: 1 and 3 bytes for the hybrid of two one-byte
  components, 31 and 33 bytes for an ed25519 public key, 63 and 65 for a private key.
\<close>

theorem unmarshal_wrong_length_witness:
  "hybrid_PublicKeySize xor_hybrid = 2 \<and> hybrid_PrivateKeySize xor_hybrid = 2 \<and>
   hybrid_UnmarshalBinaryPublicKey xor_hybrid [1] = Returns (Inl ErrPubKeySize) \<and>
   hybrid_UnmarshalBinaryPublicKey xor_hybrid [1, 2, 3] = Returns (Inl ErrPubKeySize) \<and>
   hybrid_UnmarshalBinaryPrivateKey xor_hybrid [1] = Returns (Inl ErrPrivKeySize) \<and>
   hybrid_UnmarshalBinaryPrivateKey xor_hybrid [1, 2, 3] = Returns (Inl ErrPrivKeySize) \<and>
   ed25519_UnmarshalBinaryPublicKey (\<lambda>x. []) (replicate 31 0) = Inl errInvalidKey \<and>
   ed25519_UnmarshalBinaryPublicKey (\<lambda>x. []) (replicate 33 0) = Inl errInvalidKey \<and>
   ed25519_UnmarshalBinaryPrivateKey (\<lambda>x. []) (replicate 63 0) = Inl errInvalidKey \<and>
   ed25519_UnmarshalBinaryPrivateKey (\<lambda>x. []) (replicate 65 0) = Inl errInvalidKey"
proof -
  note sizes = xor_hybrid_sizes ed25519_PublicKeySize_def ed25519_PrivateKeySize_def
  have a: "hybrid_UnmarshalBinaryPublicKey xor_hybrid [1] = Returns (Inl ErrPubKeySize)"
    "hybrid_UnmarshalBinaryPrivateKey xor_hybrid [1] = Returns (Inl ErrPrivKeySize)"
    using unmarshal_wrong_length [of "[1]" xor_hybrid "[]" "\<lambda>x. []" new_PublicKey new_PrivateKey] by (simp_all add: sizes)
  have b: "hybrid_UnmarshalBinaryPublicKey xor_hybrid [1, 2, 3] = Returns (Inl ErrPubKeySize)"
    "hybrid_UnmarshalBinaryPrivateKey xor_hybrid [1, 2, 3] = Returns (Inl ErrPrivKeySize)"
    using unmarshal_wrong_length [of "[1, 2, 3]" xor_hybrid "[]" "\<lambda>x. []" new_PublicKey new_PrivateKey] by (simp_all add: sizes)
  have c: "ed25519_UnmarshalBinaryPublicKey (\<lambda>x. []) (replicate 31 0) = Inl errInvalidKey"
    using unmarshal_wrong_length
      [of "[]" xor_hybrid "replicate 31 0" "\<lambda>x. []" new_PublicKey new_PrivateKey] by (simp add: sizes)
  have d: "ed25519_UnmarshalBinaryPublicKey (\<lambda>x. []) (replicate 33 0) = Inl errInvalidKey"
    using unmarshal_wrong_length
      [of "[]" xor_hybrid "replicate 33 0" "\<lambda>x. []" new_PublicKey new_PrivateKey] by (simp add: sizes)
  have e: "ed25519_UnmarshalBinaryPrivateKey (\<lambda>x. []) (replicate 63 0) = Inl errInvalidKey"
    using unmarshal_wrong_length
      [of "[]" xor_hybrid "replicate 63 0" "\<lambda>x. []" new_PublicKey new_PrivateKey] by (simp add: sizes)
  have f: "ed25519_UnmarshalBinaryPrivateKey (\<lambda>x. []) (replicate 65 0) = Inl errInvalidKey"
    using unmarshal_wrong_length
      [of "[]" xor_hybrid "replicate 65 0" "\<lambda>x. []" new_PublicKey new_PrivateKey] by (simp add: sizes)
  from a b c d e f show ?thesis
    by (simp add: xor_hybrid_sizes)
qed

subsection \<open>Lookup by name\<close>

text \<open>
  What the loop of \<^verbatim>\<open>init\<close> leaves under a key: the last scheme of the list with that
  key, or what was there before.
\<close>

lemma fold_store_lookup:
  "fold (\<lambda>scheme m. m(f scheme \<mapsto> scheme)) xs m0 k =
     (case find (\<lambda>s. f s = k) (rev xs) of Some s \<Rightarrow> Some s | None \<Rightarrow> m0 k)"
  by (induction xs rule: rev_induct) auto

lemma find_SomeD: "find P xs = Some x \<Longrightarrow> P x \<and> x \<in> set xs"
  by (induction xs) (auto split: if_splits)

lemma ByName_init:
  assumes "reg = init U potentialSchemes reg0"
  shows "ByName U reg n =
           find (\<lambda>s. strings_ToLower U (Name s) = strings_ToLower U n) (rev (All reg))"
  unfolding assms ByName_def All_def init_def Let_def
  by (simp add: fold_store_lookup split: option.splits)

lemma toLowerASCII_toUpperASCII: "toLowerASCII (toUpperASCII c) = toLowerASCII c"
proof (cases "isLowerASCII c")
  case True
  then have n: "97 \<le> (of_char c :: nat)" "(of_char c :: nat) \<le> 122"
    by (simp_all add: isLowerASCII_def)
  then have m: "((of_char c :: nat) - 32) mod 256 = of_char c - 32"
    by simp
  from n have u: "65 \<le> (of_char c :: nat) - 32" "(of_char c :: nat) - 32 \<le> 90"
    and restore: "(of_char c :: nat) - 32 + 32 = of_char c"
    and nu: "\<not> (of_char c :: nat) \<le> 90"
    by simp_all
  from True have "toLowerASCII (toUpperASCII c) =
      toLowerASCII (char_of ((of_char c :: nat) - 32))"
    by (simp add: toUpperASCII_def)
  also from u m have "\<dots> = char_of ((of_char c :: nat) - 32 + 32)"
    by (simp add: toLowerASCII_def isUpperASCII_def)
  also from restore have "\<dots> = c"
    by simp
  also from nu have "c = toLowerASCII c"
    by (simp add: toLowerASCII_def isUpperASCII_def)
  finally show ?thesis .
next
  case False
  then show ?thesis by (simp add: toUpperASCII_def)
qed

lemma isASCII_toUpperASCII: "isASCII c \<Longrightarrow> isASCII (toUpperASCII c)"
  by (auto simp: isASCII_def toUpperASCII_def isLowerASCII_def)

lemma toLowerASCII_idem: "toLowerASCII (toLowerASCII c) = toLowerASCII c"
proof (cases "isUpperASCII c")
  case True
  then have n: "65 \<le> (of_char c :: nat)" "(of_char c :: nat) \<le> 90"
    by (simp_all add: isUpperASCII_def)
  then have "((of_char c :: nat) + 32) mod 256 = of_char c + 32"
    by simp
  with n True show ?thesis
    by (simp add: toLowerASCII_def isUpperASCII_def)
next
  case False
  then show ?thesis by (simp add: toLowerASCII_def)
qed

lemma isASCII_toLowerASCII: "isASCII c \<Longrightarrow> isASCII (toLowerASCII c)"
  by (auto simp: isASCII_def toLowerASCII_def isUpperASCII_def)

lemma ToLower_ToUpper:
  "list_all isASCII s \<Longrightarrow> strings_ToLower U (strings_ToUpper U' s) = strings_ToLower U s"
  by (simp add: strings_ToLower_def strings_ToUpper_def list_all_iff
      isASCII_toUpperASCII toLowerASCII_toUpperASCII)

lemma ToLower_ToLower:
  "list_all isASCII s \<Longrightarrow> strings_ToLower U (strings_ToLower U s) = strings_ToLower U s"
  by (simp add: strings_ToLower_def list_all_iff isASCII_toLowerASCII toLowerASCII_idem)

text \<open>
  Claim C9. In the registry that \<^verbatim>\<open>init\<close> builds, for every registered scheme \<open>s\<close> and
  every name \<open>n\<close> that lower-cases to what the name of \<open>s\<close> lower-cases to (any casing of
  it), \<^verbatim>\<open>ByName(n)\<close> is \<^verbatim>\<open>ByName(s.Name())\<close>, and it is a registered scheme whose name
  lower-cases to the same. The all-upper and the all-lower casing of an ASCII name are
  such names. For a name that lower-cases to what no registered scheme's name does,
  \<^verbatim>\<open>ByName\<close> returns nil. \<^verbatim>\<open>ByName\<close> is a function into an option: there is no error.
\<close>

theorem ByName_case_insensitive:
  assumes reg: "reg = init U potentialSchemes reg0"
  shows "(\<forall>s \<in> set (All reg). \<forall>n. strings_ToLower U n = strings_ToLower U (Name s) \<longrightarrow>
            ByName U reg n = ByName U reg (Name s) \<and>
            (\<exists>s' \<in> set (All reg). ByName U reg n = Some s' \<and>
               strings_ToLower U (Name s') = strings_ToLower U n)) \<and>
         (\<forall>s \<in> set (All reg). list_all isASCII (Name s) \<longrightarrow>
            ByName U reg (strings_ToUpper U' (Name s)) = ByName U reg (Name s) \<and>
            ByName U reg (strings_ToLower U (Name s)) = ByName U reg (Name s)) \<and>
         (\<forall>n. (\<forall>s \<in> set (All reg). strings_ToLower U (Name s) \<noteq> strings_ToLower U n) \<longrightarrow>
            ByName U reg n = None)"
proof (intro conjI ballI allI impI)
  fix s n
  assume s: "s \<in> set (All reg)"
    and n: "strings_ToLower U n = strings_ToLower U (Name s)"
  show "ByName U reg n = ByName U reg (Name s)"
    by (simp add: ByName_def n)
  from s n have "\<exists>x \<in> set (rev (All reg)). strings_ToLower U (Name x) = strings_ToLower U n"
    by auto
  then obtain s' where
    f: "find (\<lambda>s. strings_ToLower U (Name s) = strings_ToLower U n) (rev (All reg)) = Some s'"
    by (cases "find (\<lambda>s. strings_ToLower U (Name s) = strings_ToLower U n) (rev (All reg))")
      (auto simp: find_None_iff)
  then have "s' \<in> set (All reg)" "strings_ToLower U (Name s') = strings_ToLower U n"
    by (auto dest: find_SomeD)
  with f show "\<exists>s' \<in> set (All reg). ByName U reg n = Some s' \<and>
          strings_ToLower U (Name s') = strings_ToLower U n"
    by (auto simp: ByName_init [OF reg])
next
  fix s
  assume "list_all isASCII (Name s)"
  then show "ByName U reg (strings_ToUpper U' (Name s)) = ByName U reg (Name s)"
    and "ByName U reg (strings_ToLower U (Name s)) = ByName U reg (Name s)"
    by (simp_all add: ByName_def ToLower_ToUpper ToLower_ToLower)
next
  fix n
  assume "\<forall>s \<in> set (All reg). strings_ToLower U (Name s) \<noteq> strings_ToLower U n"
  then show "ByName U reg n = None"
    by (simp add: ByName_init [OF reg] find_None_iff)
qed

lemma some_registry_All:
  "All some_registry =
     [xor_kem ''Kyber768-X25519'' 1, xor_kem ''MLKEM768-X25519'' 1,
      xor_kem ''ctidh512-X25519'' 1]"
  by (simp add: All_def some_registry_def init_def)

lemma some_registry_lower:
  "strings_ToLower id ''Kyber768-X25519'' = ''kyber768-x25519''"
  "strings_ToLower id ''KYBER768-X25519'' = ''kyber768-x25519''"
  "strings_ToLower id ''kyber768-x25519'' = ''kyber768-x25519''"
  "strings_ToLower id ''MLKEM768-X25519'' = ''mlkem768-x25519''"
  "strings_ToLower id ''ctidh512-X25519'' = ''ctidh512-x25519''"
  "strings_ToLower id ''nosuch'' = ''nosuch''"
  by (simp_all add: strings_ToLower_def isASCII_def toLowerASCII_def isUpperASCII_def
      char_of_def bit_Suc_0_iff)

text \<open>
  In a registry of \<^verbatim>\<open>Kyber768-X25519\<close>, \<^verbatim>\<open>MLKEM768-X25519\<close> and \<^verbatim>\<open>ctidh512-X25519\<close>: the
  first, asked for in upper case and in lower case, is the scheme that its own name
  finds, and \<^verbatim>\<open>nosuch\<close> finds nil.
\<close>

theorem ByName_case_insensitive_witness:
  "ByName id some_registry ''KYBER768-X25519'' = ByName id some_registry ''Kyber768-X25519'' \<and>
   ByName id some_registry ''kyber768-x25519'' = ByName id some_registry ''Kyber768-X25519'' \<and>
   strings_ToUpper id ''Kyber768-X25519'' = ''KYBER768-X25519'' \<and>
   ByName id some_registry (strings_ToUpper id ''Kyber768-X25519'') =
     ByName id some_registry ''Kyber768-X25519'' \<and>
   ByName id some_registry ''Kyber768-X25519'' = Some (xor_kem ''Kyber768-X25519'' 1) \<and>
   ByName id some_registry ''nosuch'' = None"
proof -
  note T = ByName_case_insensitive [OF some_registry_def]
  have s: "xor_kem ''Kyber768-X25519'' 1 \<in> set (All some_registry)"
    by (simp add: some_registry_All)
  have up: "strings_ToLower id ''KYBER768-X25519'' =
              strings_ToLower id (Name (xor_kem ''Kyber768-X25519'' 1))"
    and low: "strings_ToLower id ''kyber768-x25519'' =
              strings_ToLower id (Name (xor_kem ''Kyber768-X25519'' 1))"
    by (simp_all add: Name_xor_kem some_registry_lower)
  from T [THEN conjunct1, rule_format, OF s up, THEN conjunct1] have a:
    "ByName id some_registry ''KYBER768-X25519'' = ByName id some_registry ''Kyber768-X25519''"
    by (simp only: Name_xor_kem)
  from T [THEN conjunct1, rule_format, OF s low, THEN conjunct1] have b:
    "ByName id some_registry ''kyber768-x25519'' = ByName id some_registry ''Kyber768-X25519''"
    by (simp only: Name_xor_kem)
  have c: "ByName id some_registry ''Kyber768-X25519'' = Some (xor_kem ''Kyber768-X25519'' 1)"
    by (simp add: ByName_init [OF some_registry_def] some_registry_All Name_xor_kem
        some_registry_lower)
  have "\<forall>s \<in> set (All some_registry).
          strings_ToLower id (Name s) \<noteq> strings_ToLower id ''nosuch''"
    by (simp add: some_registry_All Name_xor_kem some_registry_lower)
  from T [THEN conjunct2, THEN conjunct2, THEN spec, THEN mp, OF this]
  have d: "ByName id some_registry ''nosuch'' = None" .
  have ascii: "list_all isASCII (Name (xor_kem ''Kyber768-X25519'' 1))"
    by (simp add: Name_xor_kem isASCII_def)
  from T [THEN conjunct2, THEN conjunct1, rule_format, OF s ascii, THEN conjunct1, of id]
  have e: "ByName id some_registry (strings_ToUpper id ''Kyber768-X25519'') =
             ByName id some_registry ''Kyber768-X25519''"
    by (simp only: Name_xor_kem)
  have u: "strings_ToUpper id ''Kyber768-X25519'' = ''KYBER768-X25519''"
    by (simp add: strings_ToUpper_def isASCII_def toUpperASCII_def isLowerASCII_def
        char_of_def bit_Suc_0_iff)
  from a b c d e u show ?thesis by simp
qed

subsection \<open>\<^verbatim>\<open>UnmarshalText\<close> and its receiver\<close>

lemma hybrid_UnmarshalBinaryPublicKey_OkE:
  assumes "hybrid_UnmarshalBinaryPublicKey sch buf = Returns (Inr k)"
  obtains new where "k = Some (Hybrid (Some new))"
  using assms unfolding hybrid_UnmarshalBinaryPublicKey_def
  by (auto simp: Let_def split: if_splits go.splits sum.splits)

lemma PublicKey_UnmarshalText_store:
  assumes "PublicKey_UnmarshalText pem store (Some a) t = Returns (err, store', sk')"
  shows "(err \<noteq> None \<and> store' = store) \<or>
         (\<exists>new. err = None \<and> store' = store @ [new] \<and> sk' = Some (length store))"
  using assms unfolding PublicKey_UnmarshalText_def
  by (auto split: go.splits sum.splits option.splits dyn.splits
      elim: hybrid_UnmarshalBinaryPublicKey_OkE)

text \<open>
  Claim C10. For every receiver of \<^verbatim>\<open>PublicKey.UnmarshalText\<close> (a pointer to a key in
  the store) and every text: when the method returns, with an error or with nil, the
  receiver's key has the \<^verbatim>\<open>scheme\<close>, \<^verbatim>\<open>first\<close> and \<^verbatim>\<open>second\<close> it had before. When it
  returns nil, the parsed key is a new struct of the store, and only the method's local
  variable \<^verbatim>\<open>sk\<close> points to it: it is not the receiver's key.
\<close>

theorem UnmarshalText_receiver_unchanged:
  assumes a: "a < length store"
    and ret: "PublicKey_UnmarshalText pem store (Some a) t = Returns (err, store', sk')"
  shows "pk_scheme (store' ! a) = pk_scheme (store ! a) \<and>
         pk_first (store' ! a) = pk_first (store ! a) \<and>
         pk_second (store' ! a) = pk_second (store ! a) \<and>
         (err = None \<longrightarrow>
            length store' = Suc (length store) \<and> sk' = Some (length store) \<and> sk' \<noteq> Some a)"
proof -
  from ret have cases:
    "(err \<noteq> None \<and> store' = store) \<or>
     (\<exists>new. err = None \<and> store' = store @ [new] \<and> sk' = Some (length store))"
    by (rule PublicKey_UnmarshalText_store)
  with a have same: "store' ! a = store ! a"
    by (auto simp: nth_append)
  from cases a have "err = None \<longrightarrow>
      length store' = Suc (length store) \<and> sk' = Some (length store) \<and> sk' \<noteq> Some a"
    by auto
  with same a show ?thesis by auto
qed

text \<open>
  A receiver holding the key \<open>(1, 2)\<close> unmarshals the text of the key \<open>(9, 8)\<close> and
  returns nil: the receiver still holds \<open>(1, 2)\<close>, and \<open>(9, 8)\<close> is a second struct.
\<close>

theorem UnmarshalText_receiver_unchanged_witness:
  "0 < length [xor_pub] \<and>
   PublicKey_UnmarshalText raw_pem [xor_pub] (Some 0) [9, 8] =
     Returns (None,
       [xor_pub, \<lparr>pk_scheme = Some xor_hybrid, pk_first = Some [9], pk_second = Some [8]\<rparr>],
       Some 1) \<and>
   pk_scheme ([xor_pub,
       \<lparr>pk_scheme = Some xor_hybrid, pk_first = Some [9], pk_second = Some [8]\<rparr>] ! 0) =
     Some xor_hybrid \<and>
   pk_first ([xor_pub,
       \<lparr>pk_scheme = Some xor_hybrid, pk_first = Some [9], pk_second = Some [8]\<rparr>] ! 0) =
     Some [1] \<and>
   pk_second ([xor_pub,
       \<lparr>pk_scheme = Some xor_hybrid, pk_first = Some [9], pk_second = Some [8]\<rparr>] ! 0) =
     Some [2]"
proof -
  have a: "0 < length [xor_pub]"
    by simp
  have u: "hybrid_UnmarshalBinaryPublicKey xor_hybrid [9, 8] =
      Returns (Inr (Some (Hybrid (Some
        \<lparr>pk_scheme = Some xor_hybrid, pk_first = Some [9], pk_second = Some [8]\<rparr>))))"
    by (simp add: hybrid_UnmarshalBinaryPublicKey_def xor_hybrid_sizes xor_hybrid_fields
        xor_kem_def)
  have ret: "PublicKey_UnmarshalText raw_pem [xor_pub] (Some 0) [9, 8] =
      Returns (None,
        [xor_pub, \<lparr>pk_scheme = Some xor_hybrid, pk_first = Some [9], pk_second = Some [8]\<rparr>],
        Some 1)"
    by (simp add: PublicKey_UnmarshalText_def raw_pem_def u) (simp add: xor_pub_def u)
  from UnmarshalText_receiver_unchanged [OF a ret] a ret show ?thesis
    by (simp add: xor_pub_def)
qed

end
